theory Spec2Isabelle
  imports Main "HOL-Library.Word" "HOL-Library.Sublist"
begin

section \<open>Data model (pkg/models and the amqp091 types the client uses)\<close>

text \<open>
  A Go \<^verbatim>\<open>string\<close> is a sequence of bytes, and so is an Isabelle \<^typ>\<open>string\<close>;
  \<^verbatim>\<open>[]byte(v)\<close> keeps the bytes, so a byte slice is modelled by the same type.
  A Go \<^verbatim>\<open>error\<close> is modelled by its message, \<^verbatim>\<open>nil\<close> by \<^term>\<open>None\<close>.
\<close>

type_synonym bytes = string
type_synonym error = string

text \<open>
  The values of \<^verbatim>\<open>interface{}\<close> stored in an \<^verbatim>\<open>amqp.Table\<close>: the nil
  interface, strings, Go \<^verbatim>\<open>int\<close>s (no arithmetic is done on them here, only the test
  \<^verbatim>\<open>> 0\<close>), \<^verbatim>\<open>uint8\<close>, booleans and byte slices.
\<close>

datatype amqp_value =
    VNil
  | VString string
  | VInt int
  | VUint8 "8 word"
  | VBool bool
  | VBytes bytes

text \<open>
  \<^verbatim>\<open>amqp.Table\<close> is \<^verbatim>\<open>map[string]interface{}\<close>. A table-typed field may be the nil
  map, so fields hold a \<open>table option\<close>.
\<close>

type_synonym table = "string \<rightharpoonup> amqp_value"

text \<open>Go's \<^verbatim>\<open>m[k]\<close>: the zero value (the nil interface) for an absent key.\<close>

definition index_table :: "table \<Rightarrow> string \<Rightarrow> amqp_value" where
  "index_table m k = (case m k of None \<Rightarrow> VNil | Some v \<Rightarrow> v)"

text \<open>\<^verbatim>\<open>for k, v := range src { dst[k] = v }\<close> and \<^verbatim>\<open>maps.Copy(dst, src)\<close>.\<close>

definition copy_into :: "table \<Rightarrow> table \<Rightarrow> table" where
  "copy_into dst src = dst ++ src"

record AMQPCarrier =
  Headers :: "table option"

record QueueOptions =
  qo_Durable :: bool
  qo_AutoDelete :: bool
  qo_Exclusive :: bool
  qo_NoWait :: bool
  DLXName :: string
  DLXRoutingKey :: string
  MaxRetries :: int
  MessageTTL :: int
  MaxLength :: int
  MaxPriority :: "8 word"
  AdditionalArgs :: "table option"

record DLXOptions =
  Kind :: string
  dlx_Durable :: bool
  dlx_AutoDelete :: bool
  Internal :: bool
  dlx_NoWait :: bool
  dlx_Args :: "table option"

record DLQOptions =
  dlq_Durable :: bool
  dlq_AutoDelete :: bool
  dlq_Exclusive :: bool
  dlq_NoWait :: bool
  dlq_Args :: "table option"

text \<open>
  \<^verbatim>\<open>time.Time\<close>: an instant, counted from the zero value of the type, so that
  \<^verbatim>\<open>IsZero\<close> is the test for 0.
\<close>

type_synonym time = int

definition IsZero :: "time \<Rightarrow> bool" where
  "IsZero t = (t = 0)"

record PublishOptions =
  Mandatory :: bool
  Immediate :: bool
  po_ContentType :: string
  po_Headers :: "table option"
  po_Priority :: "8 word"
  po_Expiration :: string
  MessageID :: string
  po_Timestamp :: time
  po_Type :: string
  UserID :: string
  AppID :: string

text \<open>The fields of \<^verbatim>\<open>amqp.Publishing\<close> that the client writes; the others stay zero.\<close>

record Publishing =
  pub_Headers :: "table option"
  ContentType :: string
  DeliveryMode :: "8 word"
  Priority :: "8 word"
  Expiration :: string
  MessageId :: string
  Timestamp :: time
  Type :: string
  UserId :: string
  AppId :: string
  Body :: bytes

text \<open>\<^verbatim>\<open>amqp.Persistent\<close>\<close>

definition Persistent :: "8 word" where
  "Persistent = 2"

record ConsumeOptions =
  Consumer :: string
  AutoAck :: bool
  co_Exclusive :: bool
  NoLocal :: bool
  co_NoWait :: bool
  co_Args :: "table option"

text \<open>The fields of \<^verbatim>\<open>amqp.Delivery\<close> that the client reads.\<close>

record Delivery =
  DeliveryTag :: "64 word"
  d_Headers :: "table option"
  d_MessageId :: string
  d_RoutingKey :: string
  d_Exchange :: string
  d_Body :: bytes

text \<open>
  The message handed to publish is an \<^verbatim>\<open>interface{}\<close>; the type switch of
  \<^verbatim>\<open>PublishWithOptions\<close> tells a byte slice and a string from every other value.
\<close>

datatype 'a message = MBytes bytes | MString string | MOther 'a

section \<open>The broker\<close>

text \<open>
  Every call the client makes on the connection, on the channel and on a delivery's
  acknowledger, with the arguments in the order of the library's signatures.
\<close>

datatype call =
    Dial string
  | OpenChannel
  | ExchangeDeclare string string bool bool bool bool "table option"
  | QueueDeclare string bool bool bool bool "table option"
  | QueueDeclarePassive string bool bool bool bool "table option"
  | QueueDelete string bool bool bool
  | QueueBind string string string bool "table option"
  | PublishWithContext string string bool bool Publishing
  | Consume string string bool bool bool bool "table option"
  | Ack "64 word" bool
  | Nack "64 word" bool bool
  | ChannelClose
  | ConnectionClose

text \<open>
  What the program does that an observer can see, in order: calls to the broker, and
  invocations of the caller's message handler.
\<close>

datatype event = Broker call | Invoke Delivery

text \<open>
  The broker is an arbitrary state machine that answers each call with an error or
  \<^verbatim>\<open>nil\<close>. The world is the trace of events so far and the broker's state.
\<close>

type_synonym 's broker = "'s \<Rightarrow> call \<Rightarrow> error option \<times> 's"
type_synonym 's world = "event list \<times> 's"

definition do_call :: "'s broker \<Rightarrow> call \<Rightarrow> 's world \<Rightarrow> error option \<times> 's world" where
  "do_call br c w =
     (case br (snd w) c of (err, s') \<Rightarrow> (err, (fst w @ [Broker c], s')))"

definition invoke :: "Delivery \<Rightarrow> 's world \<Rightarrow> 's world" where
  "invoke d w = (fst w @ [Invoke d], snd w)"

section \<open>Connection and channel manager\<close>

datatype Connection = Connection
datatype Channel = Channel

text \<open>The pointer fields of \<^verbatim>\<open>rabbitmqClient\<close>; a nil pointer is \<^term>\<open>None\<close>.\<close>

record rabbitmqClient =
  conn :: "Connection option"
  channel :: "Channel option"

text \<open>\<^verbatim>\<open>func NewRabbitMQClient(url, logger, tracer) (RabbitMQClient, error)\<close>\<close>

definition NewRabbitMQClient ::
  "'s broker \<Rightarrow> string \<Rightarrow> 's world \<Rightarrow> (error + rabbitmqClient) \<times> 's world" where
  "NewRabbitMQClient br url w =
     (case do_call br (Dial url) w of
        (Some err, w1) \<Rightarrow> (Inl (''failed to connect to RabbitMQ: '' @ err), w1)
      | (None, w1) \<Rightarrow>
          (case do_call br OpenChannel w1 of
             (Some err, w2) \<Rightarrow>
               (Inl (''failed to open channel: '' @ err), snd (do_call br ConnectionClose w2))
           | (None, w2) \<Rightarrow>
               (Inr \<lparr>conn = Some Connection, channel = Some Channel\<rparr>, w2)))"

text \<open>\<^verbatim>\<open>%v\<close> of a slice of errors: the messages between brackets, separated by spaces.\<close>

fun join_space :: "string list \<Rightarrow> string" where
  "join_space [] = []"
| "join_space [x] = x"
| "join_space (x # y # ys) = x @ '' '' @ join_space (y # ys)"

definition fmt_errs :: "error list \<Rightarrow> string" where
  "fmt_errs errs = ''['' @ join_space errs @ '']''"

text \<open>\<^verbatim>\<open>func (r *rabbitmqClient) Close() error\<close>\<close>

definition Close :: "'s broker \<Rightarrow> rabbitmqClient \<Rightarrow> 's world \<Rightarrow> error option \<times> 's world" where
  "Close br r w =
     (let (errs1, w1) =
            (case channel r of
               None \<Rightarrow> ([], w)
             | Some _ \<Rightarrow>
                 (case do_call br ChannelClose w of
                    (Some err, w') \<Rightarrow> ([] @ [''failed to close channel: '' @ err], w')
                  | (None, w') \<Rightarrow> ([], w')));
          (errs2, w2) =
            (case conn r of
               None \<Rightarrow> (errs1, w1)
             | Some _ \<Rightarrow>
                 (case do_call br ConnectionClose w1 of
                    (Some err, w') \<Rightarrow> (errs1 @ [''failed to close connection: '' @ err], w')
                  | (None, w') \<Rightarrow> (errs1, w')))
      in if length errs2 > 0
         then (Some (''errors closing RabbitMQ: '' @ fmt_errs errs2), w2)
         else (None, w2))"

section \<open>Trace carrier\<close>

text \<open>\<^verbatim>\<open>func (c *AMQPCarrier) Get(key string) string\<close>\<close>

definition Get :: "AMQPCarrier \<Rightarrow> string \<Rightarrow> string" where
  "Get c key =
     (case Headers c of
        None \<Rightarrow> ''''
      | Some h \<Rightarrow>
          (case h key of
             Some val \<Rightarrow> (case val of VString str \<Rightarrow> str | _ \<Rightarrow> '''')
           | None \<Rightarrow> ''''))"

text \<open>\<^verbatim>\<open>func (c *AMQPCarrier) Set(key, val string)\<close>\<close>

definition Set_header :: "AMQPCarrier \<Rightarrow> string \<Rightarrow> string \<Rightarrow> AMQPCarrier" where
  "Set_header c key val =
     (let h = (case Headers c of None \<Rightarrow> Map.empty | Some h \<Rightarrow> h)
      in c\<lparr>Headers := Some (h(key \<mapsto> VString val))\<rparr>)"

section \<open>Topology manager: the argument table of DeclareQueueWithDLX\<close>

text \<open>
  Lines 491 to 537 of \<^verbatim>\<open>rabbitmq.go\<close>: the table handed to
  \<^verbatim>\<open>QueueDeclare\<close>. Span attributes and log lines are left out; they do not touch
  the table.
\<close>

definition queue_args :: "string \<Rightarrow> QueueOptions \<Rightarrow> table" where
  "queue_args queue options =
     (let args0 = (case AdditionalArgs options of
                     None \<Rightarrow> Map.empty
                   | Some a \<Rightarrow> copy_into Map.empty a);
          args1 = (if DLXName options \<noteq> '''' then
                     (let dlxRoutingKey =
                            (if DLXRoutingKey options = '''' then queue
                             else DLXRoutingKey options)
                      in (args0(''x-dead-letter-exchange'' \<mapsto> VString (DLXName options)))
                              (''x-dead-letter-routing-key'' \<mapsto> VString dlxRoutingKey))
                   else args0);
          args2 = (if MessageTTL options > 0
                   then args1(''x-message-ttl'' \<mapsto> VInt (MessageTTL options))
                   else args1);
          args3 = (if MaxLength options > 0
                   then args2(''x-max-length'' \<mapsto> VInt (MaxLength options))
                   else args2);
          args4 = (if MaxPriority options > 0
                   then args3(''x-max-priority'' \<mapsto> VUint8 (MaxPriority options))
                   else args3);
          args5 = (if MaxRetries options > 0 then
                     (if index_table args4 ''x-max-retries'' = VNil
                      then args4(''x-max-retries'' \<mapsto> VInt (MaxRetries options))
                      else args4)
                   else args4)
      in args5)"

text \<open>\<^verbatim>\<open>func (r *rabbitmqClient) DeclareQueueWithDLX(ctx, queue, options) error\<close>\<close>

definition DeclareQueueWithDLX ::
  "'s broker \<Rightarrow> string \<Rightarrow> QueueOptions \<Rightarrow> 's world \<Rightarrow> error option \<times> 's world" where
  "DeclareQueueWithDLX br queue options w =
     (case do_call br (QueueDeclare queue (qo_Durable options) (qo_AutoDelete options)
                         (qo_Exclusive options) (qo_NoWait options)
                         (Some (queue_args queue options))) w of
        (Some err, w1) \<Rightarrow> (Some (''failed to declare queue with DLX: '' @ err), w1)
      | (None, w1) \<Rightarrow> (None, w1))"

text \<open>\<^verbatim>\<open>func (r *rabbitmqClient) DeclareDLX(ctx, dlxName, options) error\<close>\<close>

definition DeclareDLX ::
  "'s broker \<Rightarrow> string \<Rightarrow> DLXOptions \<Rightarrow> 's world \<Rightarrow> error option \<times> 's world" where
  "DeclareDLX br dlxName options w =
     (let kind = (if Kind options = '''' then ''direct'' else Kind options)
      in case do_call br (ExchangeDeclare dlxName kind (dlx_Durable options)
                            (dlx_AutoDelete options) (Internal options) (dlx_NoWait options)
                            (dlx_Args options)) w of
           (Some err, w1) \<Rightarrow> (Some (''failed to declare DLX: '' @ err), w1)
         | (None, w1) \<Rightarrow> (None, w1))"

text \<open>\<^verbatim>\<open>func (r *rabbitmqClient) DeclareDLQ(ctx, dlqName, dlxName, options) error\<close>\<close>

definition DeclareDLQ ::
  "'s broker \<Rightarrow> string \<Rightarrow> string \<Rightarrow> DLQOptions \<Rightarrow> 's world \<Rightarrow> error option \<times> 's world" where
  "DeclareDLQ br dlqName dlxName options w =
     (case do_call br (QueueDeclare dlqName (dlq_Durable options) (dlq_AutoDelete options)
                         (dlq_Exclusive options) (dlq_NoWait options) (dlq_Args options)) w of
        (Some err, w1) \<Rightarrow> (Some (''failed to declare DLQ: '' @ err), w1)
      | (None, w1) \<Rightarrow>
          (case do_call br (QueueBind dlqName dlqName dlxName (dlq_NoWait options) None) w1 of
             (Some err, w2) \<Rightarrow> (Some (''failed to bind DLQ to DLX: '' @ err), w2)
           | (None, w2) \<Rightarrow> (None, w2)))"

text \<open>The table built at lines 698 to 700, in step 3 of \<^verbatim>\<open>SetupDLXForQueue\<close>.\<close>

definition setup_args :: "string \<Rightarrow> string \<Rightarrow> table" where
  "setup_args dlxName dlqName =
     (Map.empty(''x-dead-letter-exchange'' \<mapsto> VString dlxName))
       (''x-dead-letter-routing-key'' \<mapsto> VString dlqName)"

text \<open>
  \<^verbatim>\<open>func (r *rabbitmqClient) SetupDLXForQueue(ctx, queueName, dlxName, dlqName, options) error\<close>
\<close>

definition SetupDLXForQueue ::
  "'s broker \<Rightarrow> string \<Rightarrow> string \<Rightarrow> string \<Rightarrow> DLXOptions \<Rightarrow> 's world
     \<Rightarrow> error option \<times> 's world" where
  "SetupDLXForQueue br queueName dlxName dlqName options w =
     (case DeclareDLX br dlxName options w of
        (Some err, w1) \<Rightarrow> (Some (''failed to setup DLX: '' @ err), w1)
      | (None, w1) \<Rightarrow>
          (let dlqOptions = \<lparr>dlq_Durable = dlx_Durable options, dlq_AutoDelete = False,
                             dlq_Exclusive = False, dlq_NoWait = dlx_NoWait options,
                             dlq_Args = None\<rparr>
           in case DeclareDLQ br dlqName dlxName dlqOptions w1 of
                (Some err, w2) \<Rightarrow> (Some (''failed to setup DLQ: '' @ err), w2)
              | (None, w2) \<Rightarrow>
                  (let args = setup_args dlxName dlqName;
                       (err, w3) = do_call br (QueueDeclarePassive queueName False False False
                                                 False None) w2;
                       queueExists = (err = None)
                   in if \<not> queueExists then
                        (case do_call br (QueueDeclare queueName (dlx_Durable options) False
                                            False False (Some args)) w3 of
                           (Some err, w4) \<Rightarrow>
                             (Some (''failed to declare queue with DLX: '' @ err), w4)
                         | (None, w4) \<Rightarrow> (None, w4))
                      else
                        (let (err, w4) = do_call br (QueueDelete queueName False False False) w3
                         in case do_call br (QueueDeclare queueName (dlx_Durable options) False
                                               False False (Some args)) w4 of
                              (Some err, w5) \<Rightarrow>
                                (Some (''failed to recreate queue with DLX: '' @ err), w5)
                            | (None, w5) \<Rightarrow> (None, w5)))))"

section \<open>Publisher\<close>

text \<open>
  \<^verbatim>\<open>r.propagator.Inject(ctx, carrier)\<close>: the propagator comes from the tracing
  library and sees the carrier only through \<^verbatim>\<open>propagation.TextMapCarrier\<close>, so
  what it does to the headers is a sequence of \<^verbatim>\<open>Set\<close> calls. The pairs it sets
  (for the W3C propagator, \<^verbatim>\<open>traceparent\<close> and \<^verbatim>\<open>tracestate\<close>) are a
  parameter.
\<close>

definition Inject :: "(string \<times> string) list \<Rightarrow> AMQPCarrier \<Rightarrow> AMQPCarrier" where
  "Inject injected carrier = fold (\<lambda>(k, v) c. Set_header c k v) injected carrier"

text \<open>
  Lines 132 to 197 of \<^verbatim>\<open>PublishWithOptions\<close> build the
  \<^verbatim>\<open>amqp.Publishing\<close> for the serialized body. The model follows the blocks of
  the source, one definition per block. Spans and log lines are left out.
\<close>

text \<open>Lines 146 to 154: the header table is allocated and the caller's headers copied.\<close>

definition merge_headers :: "PublishOptions \<Rightarrow> Publishing \<Rightarrow> Publishing" where
  "merge_headers options publishing =
     (let p1 = (if pub_Headers publishing = None
                then publishing\<lparr>pub_Headers := Some Map.empty\<rparr> else publishing)
      in case po_Headers options of
           None \<Rightarrow> p1
         | Some src \<Rightarrow>
             (case pub_Headers p1 of
                Some dst \<Rightarrow> p1\<lparr>pub_Headers := Some (copy_into dst src)\<rparr>
              | None \<Rightarrow> p1))"

text \<open>Lines 156 to 159: the propagator writes the trace context through the carrier.\<close>

definition inject_trace :: "(string \<times> string) list \<Rightarrow> Publishing \<Rightarrow> Publishing" where
  "inject_trace injected publishing =
     (let carrier = Inject injected \<lparr>Headers = pub_Headers publishing\<rparr>
      in publishing\<lparr>pub_Headers := Headers carrier\<rparr>)"

text \<open>Lines 161 to 168: the message id, also as the header \<^verbatim>\<open>x-message-id\<close>.\<close>

definition set_message_id :: "PublishOptions \<Rightarrow> Publishing \<Rightarrow> Publishing" where
  "set_message_id options publishing =
     (if MessageID options \<noteq> '''' then
        (let q0 = publishing\<lparr>MessageId := MessageID options\<rparr>;
             q1 = (if pub_Headers q0 = None then q0\<lparr>pub_Headers := Some Map.empty\<rparr>
                   else q0)
         in case pub_Headers q1 of
              Some h \<Rightarrow>
                q1\<lparr>pub_Headers := Some (h(''x-message-id'' \<mapsto> VString (MessageID options)))\<rparr>
            | None \<Rightarrow> q1)
      else publishing)"

text \<open>Lines 180 to 197: the optional fields, each written when the option is set.\<close>

definition set_optional_fields :: "PublishOptions \<Rightarrow> Publishing \<Rightarrow> Publishing" where
  "set_optional_fields options publishing =
     (let p5 = (if po_Priority options > 0
                then publishing\<lparr>Priority := po_Priority options\<rparr> else publishing);
          p6 = (if po_Expiration options \<noteq> ''''
                then p5\<lparr>Expiration := po_Expiration options\<rparr> else p5);
          p7 = (if \<not> IsZero (po_Timestamp options)
                then p6\<lparr>Timestamp := po_Timestamp options\<rparr> else p6);
          p8 = (if po_Type options \<noteq> '''' then p7\<lparr>Type := po_Type options\<rparr> else p7);
          p9 = (if UserID options \<noteq> '''' then p8\<lparr>UserId := UserID options\<rparr> else p8)
      in if AppID options \<noteq> '''' then p9\<lparr>AppId := AppID options\<rparr> else p9)"

text \<open>
  The publishing handed to the broker. The pairs the propagator injects and
  \<^verbatim>\<open>time.Now()\<close> are parameters.
\<close>

definition build_publishing ::
  "(string \<times> string) list \<Rightarrow> time \<Rightarrow> bytes \<Rightarrow> PublishOptions \<Rightarrow> Publishing" where
  "build_publishing injected now body options =
     (let contentType = (if po_ContentType options = '''' then ''application/json''
                         else po_ContentType options);
          publishing = \<lparr>pub_Headers = None, ContentType = contentType,
                        DeliveryMode = Persistent, Priority = 0, Expiration = '''',
                        MessageId = '''', Timestamp = now, Type = '''', UserId = '''',
                        AppId = '''', Body = body\<rparr>
      in set_optional_fields options
           (set_message_id options
              (inject_trace injected
                 (merge_headers options publishing))))"

text \<open>
  \<^verbatim>\<open>func (r *rabbitmqClient) PublishWithOptions(ctx, exchange, routingKey, message, options) error\<close>

  \<^verbatim>\<open>json.Marshal\<close> is the parameter \<open>marshal\<close>.
\<close>

definition PublishWithOptions ::
  "'s broker \<Rightarrow> ('a \<Rightarrow> error + bytes) \<Rightarrow> (string \<times> string) list \<Rightarrow> time
     \<Rightarrow> string \<Rightarrow> string \<Rightarrow> 'a message \<Rightarrow> PublishOptions \<Rightarrow> 's world
     \<Rightarrow> error option \<times> 's world" where
  "PublishWithOptions br marshal injected now exchange routingKey message options w =
     (case (case message of
              MBytes v \<Rightarrow> Inr v
            | MString v \<Rightarrow> Inr v
            | MOther x \<Rightarrow> marshal x) of
        Inl err \<Rightarrow> (Some (''failed to marshal message: '' @ err), w)
      | Inr body \<Rightarrow>
          (case do_call br (PublishWithContext exchange routingKey (Mandatory options)
                              (Immediate options)
                              (build_publishing injected now body options)) w of
             (Some err, w1) \<Rightarrow> (Some (''failed to publish message: '' @ err), w1)
           | (None, w1) \<Rightarrow> (None, w1)))"

section \<open>Consumer\<close>

text \<open>
  What a call of the caller's handler on a delivery does: it returns \<^verbatim>\<open>nil\<close> or an
  error, or it does not return.
\<close>

datatype outcome = Returns "error option" | Blocks

text \<open>
  The body of the goroutine started at line 275,
  \<^verbatim>\<open>for delivery := range deliveries { ... }\<close>, run on the deliveries that the
  stream yields before it closes. The loop calls the handler in its own body, so when a
  call does not return the loop never reaches the deliveries after it.
\<close>

fun handle_deliveries ::
  "'s broker \<Rightarrow> (Delivery \<Rightarrow> outcome) \<Rightarrow> ConsumeOptions \<Rightarrow> Delivery list \<Rightarrow> 's world
     \<Rightarrow> 's world" where
  "handle_deliveries br handler options [] w = w"
| "handle_deliveries br handler options (delivery # deliveries) w =
     (case handler delivery of
        Blocks \<Rightarrow> invoke delivery w
      | Returns (Some err) \<Rightarrow>
          handle_deliveries br handler options deliveries
            (if \<not> AutoAck options
             then snd (do_call br (Nack (DeliveryTag delivery) False True) (invoke delivery w))
             else invoke delivery w)
      | Returns None \<Rightarrow>
          handle_deliveries br handler options deliveries
            (if \<not> AutoAck options
             then snd (do_call br (Ack (DeliveryTag delivery) False) (invoke delivery w))
             else invoke delivery w))"

text \<open>
  \<^verbatim>\<open>func (r *rabbitmqClient) ConsumeWithOptions(ctx, queue, handler, options) error\<close>

  The result has three parts: the error returned to the caller, the world at the moment
  of the return, and the world once the goroutine has gone through \<open>deliveries\<close>.
  \<open>fresh\<close> is \<^verbatim>\<open>fmt.Sprintf("consumer-%d", time.Now().UnixNano())\<close>.
\<close>

definition ConsumeWithOptions ::
  "'s broker \<Rightarrow> string \<Rightarrow> Delivery list \<Rightarrow> string \<Rightarrow> (Delivery \<Rightarrow> outcome) \<Rightarrow> ConsumeOptions
     \<Rightarrow> 's world \<Rightarrow> error option \<times> 's world \<times> 's world" where
  "ConsumeWithOptions br fresh deliveries queue handler options w =
     (let consumer = (if Consumer options = '''' then fresh else Consumer options)
      in case do_call br (Consume queue consumer (AutoAck options) (co_Exclusive options)
                            (NoLocal options) (co_NoWait options) (co_Args options)) w of
           (Some err, w1) \<Rightarrow> (Some (''failed to start consuming: '' @ err), w1, w1)
         | (None, w1) \<Rightarrow> (None, w1, handle_deliveries br handler options deliveries w1))"

section \<open>Auxiliary definitions for the statements\<close>

text \<open>The caller's additional arguments read as a map; the nil table has no entry.\<close>

definition caller_args :: "QueueOptions \<Rightarrow> table" where
  "caller_args options = (case AdditionalArgs options of None \<Rightarrow> Map.empty | Some a \<Rightarrow> a)"

text \<open>A broker that accepts everything but fails both close calls.\<close>

definition failing_close :: "unit broker" where
  "failing_close s c =
     (case c of ChannelClose \<Rightarrow> (Some ''chan down'', s)
              | ConnectionClose \<Rightarrow> (Some ''conn down'', s)
              | _ \<Rightarrow> (None, s))"

text \<open>The options of the worked example of the specification, for queue \<open>orders\<close>.\<close>

definition orders_options :: QueueOptions where
  "orders_options = \<lparr>qo_Durable = False, qo_AutoDelete = False, qo_Exclusive = False,
     qo_NoWait = False, DLXName = ''orders-dlx'', DLXRoutingKey = '''', MaxRetries = 3,
     MessageTTL = 60000, MaxLength = 0, MaxPriority = 0, AdditionalArgs = None\<rparr>"

text \<open>Options that set none of the optional fields and carry one argument of the caller.\<close>

definition plain_options :: QueueOptions where
  "plain_options = \<lparr>qo_Durable = True, qo_AutoDelete = False, qo_Exclusive = False,
     qo_NoWait = False, DLXName = '''', DLXRoutingKey = '''', MaxRetries = 0,
     MessageTTL = 0, MaxLength = 0, MaxPriority = 0,
     AdditionalArgs = Some [''x-queue-mode'' \<mapsto> VString ''lazy'']\<rparr>"

text \<open>Options whose additional arguments already hold all six keys that the function writes.\<close>

definition crowded_options :: QueueOptions where
  "crowded_options = \<lparr>qo_Durable = True, qo_AutoDelete = False, qo_Exclusive = False,
     qo_NoWait = False, DLXName = ''orders-dlx'', DLXRoutingKey = ''dead'', MaxRetries = 5,
     MessageTTL = 60000, MaxLength = 100, MaxPriority = 9,
     AdditionalArgs = Some [''x-dead-letter-exchange'' \<mapsto> VString ''mine'',
       ''x-dead-letter-routing-key'' \<mapsto> VString ''mine'', ''x-message-ttl'' \<mapsto> VInt 1,
       ''x-max-length'' \<mapsto> VInt 1, ''x-max-priority'' \<mapsto> VInt 1,
       ''x-max-retries'' \<mapsto> VInt 1]\<rparr>"

text \<open>
  The six calls that \<open>SetupDLXForQueue\<close> can make, in the order of the source:
  declaring the exchange, declaring and binding the dead-letter queue, the passive probe,
  the delete, and the declare with the dead-letter arguments.
\<close>

abbreviation dlx_declare :: "string \<Rightarrow> DLXOptions \<Rightarrow> call" where
  "dlx_declare dlxName options \<equiv>
     ExchangeDeclare dlxName (if Kind options = '''' then ''direct'' else Kind options)
       (dlx_Durable options) (dlx_AutoDelete options) (Internal options) (dlx_NoWait options)
       (dlx_Args options)"

abbreviation dlq_declare :: "string \<Rightarrow> DLXOptions \<Rightarrow> call" where
  "dlq_declare dlqName options \<equiv>
     QueueDeclare dlqName (dlx_Durable options) False False (dlx_NoWait options) None"

abbreviation dlq_bind :: "string \<Rightarrow> string \<Rightarrow> DLXOptions \<Rightarrow> call" where
  "dlq_bind dlqName dlxName options \<equiv>
     QueueBind dlqName dlqName dlxName (dlx_NoWait options) None"

abbreviation probe_queue :: "string \<Rightarrow> call" where
  "probe_queue queueName \<equiv> QueueDeclarePassive queueName False False False False None"

abbreviation delete_queue :: "string \<Rightarrow> call" where
  "delete_queue queueName \<equiv> QueueDelete queueName False False False"

abbreviation declare_with_dlx :: "string \<Rightarrow> string \<Rightarrow> string \<Rightarrow> DLXOptions \<Rightarrow> call" where
  "declare_with_dlx queueName dlxName dlqName options \<equiv>
     QueueDeclare queueName (dlx_Durable options) False False False
       (Some (setup_args dlxName dlqName))"

text \<open>
  A broker that refuses to delete a queue and refuses a declare that carries arguments,
  and accepts the rest.
\<close>

definition strict_broker :: "unit broker" where
  "strict_broker s c =
     (case c of
        QueueDelete q ifUnused ifEmpty noWait \<Rightarrow> (Some ''PRECONDITION_FAILED'', s)
      | QueueDeclare q d ad e n (Some args) \<Rightarrow> (Some ''inequivalent arg'', s)
      | _ \<Rightarrow> (None, s))"

text \<open>A broker that accepts every call.\<close>

definition accepting_broker :: "unit broker" where
  "accepting_broker s c = (None, s)"

text \<open>The zero value of \<^verbatim>\<open>models.DLXOptions\<close>.\<close>

definition no_dlx_options :: DLXOptions where
  "no_dlx_options = \<lparr>Kind = '''', dlx_Durable = False, dlx_AutoDelete = False,
     Internal = False, dlx_NoWait = False, dlx_Args = None\<rparr>"

text \<open>
  The events of the goroutine's loop. They do not depend on what the broker answers:
  a failed acknowledgment is logged and the loop goes on.
\<close>

fun loop_events :: "(Delivery \<Rightarrow> outcome) \<Rightarrow> bool \<Rightarrow> Delivery list \<Rightarrow> event list" where
  "loop_events handler autoAck [] = []"
| "loop_events handler autoAck (d # ds) =
     Invoke d #
     (case handler d of
        Blocks \<Rightarrow> []
      | Returns (Some err) \<Rightarrow>
          (if \<not> autoAck then [Broker (Nack (DeliveryTag d) False True)] else [])
          @ loop_events handler autoAck ds
      | Returns None \<Rightarrow>
          (if \<not> autoAck then [Broker (Ack (DeliveryTag d) False)] else [])
          @ loop_events handler autoAck ds)"

text \<open>The deliveries on which the handler was called, in the order of the calls.\<close>

fun invoked :: "event list \<Rightarrow> Delivery list" where
  "invoked [] = []"
| "invoked (Invoke d # es) = d # invoked es"
| "invoked (Broker c # es) = invoked es"

text \<open>Two deliveries with the tags 1 and 2.\<close>

definition delivery1 :: Delivery where
  "delivery1 = \<lparr>DeliveryTag = 1, d_Headers = None, d_MessageId = ''m1'',
     d_RoutingKey = ''k'', d_Exchange = ''E'', d_Body = ''first''\<rparr>"

definition delivery2 :: Delivery where
  "delivery2 = \<lparr>DeliveryTag = 2, d_Headers = None, d_MessageId = ''m2'',
     d_RoutingKey = ''k'', d_Exchange = ''E'', d_Body = ''second''\<rparr>"

text \<open>A handler that fails on the delivery with tag 1 and succeeds on the others.\<close>

definition failing_first :: "Delivery \<Rightarrow> outcome" where
  "failing_first d = (if DeliveryTag d = 1 then Returns (Some ''boom'') else Returns None)"

text \<open>A handler that never returns on the delivery with tag 1 and succeeds on the others.\<close>

definition blocking_first :: "Delivery \<Rightarrow> outcome" where
  "blocking_first d = (if DeliveryTag d = 1 then Blocks else Returns None)"

text \<open>Consume options with a consumer tag, with manual and with automatic acknowledgment.\<close>

definition manual_ack :: ConsumeOptions where
  "manual_ack = \<lparr>Consumer = ''c1'', AutoAck = False, co_Exclusive = False, NoLocal = False,
     co_NoWait = False, co_Args = None\<rparr>"

definition auto_ack :: ConsumeOptions where
  "auto_ack = \<lparr>Consumer = ''c1'', AutoAck = True, co_Exclusive = False, NoLocal = False,
     co_NoWait = False, co_Args = None\<rparr>"

text \<open>The headers that the propagator's \<open>Set\<close> calls leave: the last value set for a key.\<close>

definition injected_headers :: "(string \<times> string) list \<Rightarrow> table" where
  "injected_headers injected = map_of (rev (map (\<lambda>(k, v). (k, VString v)) injected))"

text \<open>An encoder that rejects the value 0 and encodes every other number as an empty object.\<close>

definition sample_marshal :: "nat \<Rightarrow> error + bytes" where
  "sample_marshal n = (if n = 0 then Inl ''unsupported type'' else Inr ''{}'')"

text \<open>The zero value of \<^verbatim>\<open>models.PublishOptions\<close>.\<close>

definition no_publish_options :: PublishOptions where
  "no_publish_options = \<lparr>Mandatory = False, Immediate = False, po_ContentType = '''',
     po_Headers = None, po_Priority = 0, po_Expiration = '''', MessageID = '''',
     po_Timestamp = 0, po_Type = '''', UserID = '''', AppID = ''''\<rparr>"

text \<open>
  Options with a message id whose headers use a key that the propagator writes and the
  key \<^verbatim>\<open>x-message-id\<close>, next to a key of the caller's own.
\<close>

definition clashing_options :: PublishOptions where
  "clashing_options = no_publish_options
     \<lparr>po_Headers := Some [''a'' \<mapsto> VString ''1'', ''traceparent'' \<mapsto> VString ''mine'',
                          ''x-message-id'' \<mapsto> VString ''mine''],
      MessageID := ''m-1''\<rparr>"

section \<open>Theorems\<close>

subsection \<open>Trace carrier\<close>

text \<open>
  Claim C9. For every header table, the nil one included, and every key, \<open>Get\<close>
  returns the header's value when the key is present with a string value, and the empty
  string when the table is nil, the key is absent or the value is not a string. \<open>Get\<close>
  is a total function with no error result.
\<close>

theorem carrier_get_string_or_empty:
  "(Headers c = None \<longrightarrow> Get c key = '''') \<and>
   (\<forall>h. Headers c = Some h \<and> h key = None \<longrightarrow> Get c key = '''') \<and>
   (\<forall>h v. Headers c = Some h \<and> h key = Some v \<and> (\<forall>s. v \<noteq> VString s) \<longrightarrow> Get c key = '''') \<and>
   (\<forall>h s. Headers c = Some h \<and> h key = Some (VString s) \<longrightarrow> Get c key = s)"
  by (auto simp: Get_def split: option.splits amqp_value.splits)

theorem carrier_get_string_or_empty_witness:
  "Get \<lparr>Headers = None\<rparr> ''traceparent'' = '''' \<and>
   Get \<lparr>Headers = Some Map.empty\<rparr> ''traceparent'' = '''' \<and>
   Get \<lparr>Headers = Some [''traceparent'' \<mapsto> VInt 7]\<rparr> ''traceparent'' = '''' \<and>
   Get \<lparr>Headers = Some [''traceparent'' \<mapsto> VString ''00-ab-cd-01'']\<rparr> ''traceparent''
     = ''00-ab-cd-01''"
  using carrier_get_string_or_empty [of "\<lparr>Headers = None\<rparr>" "''traceparent''"]
    carrier_get_string_or_empty [of "\<lparr>Headers = Some Map.empty\<rparr>" "''traceparent''"]
    carrier_get_string_or_empty
      [of "\<lparr>Headers = Some [''traceparent'' \<mapsto> VInt 7]\<rparr>" "''traceparent''"]
    carrier_get_string_or_empty
      [of "\<lparr>Headers = Some [''traceparent'' \<mapsto> VString ''00-ab-cd-01'']\<rparr>" "''traceparent''"]
  by simp

subsection \<open>Closing the client\<close>

lemma new_client_fields:
  "fst (NewRabbitMQClient br url w0) = Inr r \<Longrightarrow>
     conn r = Some Connection \<and> channel r = Some Channel"
  by (auto simp: NewRabbitMQClient_def split: prod.splits option.splits)

text \<open>
  Claim C6. On a client that \<open>NewRabbitMQClient\<close> returned, \<open>Close\<close> calls the
  channel's close first and then the connection's close, whatever the first call
  answers. When both fail, the returned error carries both messages; the result is
  \<^verbatim>\<open>nil\<close> exactly when both succeed.
\<close>

theorem close_attempts_both:
  assumes "fst (NewRabbitMQClient br url w0) = Inr r"
    and "br s ChannelClose = (e1, s1)"
    and "br s1 ConnectionClose = (e2, s2)"
  shows "snd (Close br r (tr, s)) = (tr @ [Broker ChannelClose, Broker ConnectionClose], s2) \<and>
         (\<forall>a b. e1 = Some a \<and> e2 = Some b \<longrightarrow>
            fst (Close br r (tr, s)) =
              Some (''errors closing RabbitMQ: [failed to close channel: '' @ a @
                    '' failed to close connection: '' @ b @ '']'')) \<and>
         (fst (Close br r (tr, s)) = None \<longleftrightarrow> e1 = None \<and> e2 = None)"
proof -
  from assms(1) have r: "conn r = Some Connection" "channel r = Some Channel"
    using new_client_fields by blast+
  show ?thesis
    using assms(2,3) r
    by (cases e1; cases e2) (simp_all add: Close_def do_call_def fmt_errs_def)
qed

theorem close_attempts_both_witness:
  "fst (NewRabbitMQClient failing_close ''amqp://h'' ([], ()))
     = Inr \<lparr>conn = Some Connection, channel = Some Channel\<rparr> \<and>
   Close failing_close \<lparr>conn = Some Connection, channel = Some Channel\<rparr> ([], ()) =
     (Some (''errors closing RabbitMQ: [failed to close channel: chan down '' @
            ''failed to close connection: conn down]''),
      ([Broker ChannelClose, Broker ConnectionClose], ()))"
proof -
  have n: "fst (NewRabbitMQClient failing_close ''amqp://h'' ([], ()))
             = Inr \<lparr>conn = Some Connection, channel = Some Channel\<rparr>"
    by (simp add: NewRabbitMQClient_def do_call_def failing_close_def)
  have c1: "failing_close () ChannelClose = (Some ''chan down'', ())"
    and c2: "failing_close () ConnectionClose = (Some ''conn down'', ())"
    by (simp_all add: failing_close_def)
  from close_attempts_both [OF n c1 c2, of "[]"] n show ?thesis
    by (simp add: prod_eq_iff)
qed

subsection \<open>The argument table of DeclareQueueWithDLX\<close>

lemma args0_caller:
  "(case AdditionalArgs options of None \<Rightarrow> Map.empty | Some a \<Rightarrow> copy_into Map.empty a)
     = caller_args options"
  by (simp add: caller_args_def copy_into_def split: option.splits)

lemma qa_other:
  "k \<notin> {''x-dead-letter-exchange'', ''x-dead-letter-routing-key'', ''x-message-ttl'',
          ''x-max-length'', ''x-max-priority'', ''x-max-retries''} \<Longrightarrow>
      queue_args queue options k = caller_args options k"
  by (simp add: queue_args_def args0_caller Let_def)

lemma qa_dlx: "queue_args queue options ''x-dead-letter-exchange'' =
     (if DLXName options \<noteq> '''' then Some (VString (DLXName options))
      else caller_args options ''x-dead-letter-exchange'')"
  by (simp add: queue_args_def args0_caller Let_def)

lemma qa_rk: "queue_args queue options ''x-dead-letter-routing-key'' =
     (if DLXName options \<noteq> '''' then
        Some (VString (if DLXRoutingKey options = '''' then queue else DLXRoutingKey options))
      else caller_args options ''x-dead-letter-routing-key'')"
  by (simp add: queue_args_def args0_caller Let_def)

lemma qa_ttl: "queue_args queue options ''x-message-ttl'' =
     (if MessageTTL options > 0 then Some (VInt (MessageTTL options))
      else caller_args options ''x-message-ttl'')"
  by (simp add: queue_args_def args0_caller Let_def)

lemma qa_len: "queue_args queue options ''x-max-length'' =
     (if MaxLength options > 0 then Some (VInt (MaxLength options))
      else caller_args options ''x-max-length'')"
  by (simp add: queue_args_def args0_caller Let_def)

lemma qa_prio: "queue_args queue options ''x-max-priority'' =
     (if MaxPriority options > 0 then Some (VUint8 (MaxPriority options))
      else caller_args options ''x-max-priority'')"
  by (simp add: queue_args_def args0_caller Let_def)

lemma qa_retries: "queue_args queue options ''x-max-retries'' =
     (if MaxRetries options > 0 \<and> index_table (caller_args options) ''x-max-retries'' = VNil
      then Some (VInt (MaxRetries options))
      else caller_args options ''x-max-retries'')"
  by (simp add: queue_args_def args0_caller Let_def index_table_def)

lemma dq_trace: "fst (snd (DeclareQueueWithDLX br queue options w)) =
     fst w @ [Broker (QueueDeclare queue (qo_Durable options) (qo_AutoDelete options)
                (qo_Exclusive options) (qo_NoWait options) (Some (queue_args queue options)))]"
  by (simp add: DeclareQueueWithDLX_def do_call_def split: prod.splits option.splits)

text \<open>
  Claim C4. \<open>DeclareQueueWithDLX\<close> declares the queue with the table
  \<open>queue_args\<close>, which is the caller's additional arguments, then, when
  \<open>DLXName\<close> is not empty, \<open>x-dead-letter-exchange\<close> set to it and
  \<open>x-dead-letter-routing-key\<close> set to \<open>DLXRoutingKey\<close> or, when that is
  empty, to the queue's name; then \<open>x-message-ttl\<close>, \<open>x-max-length\<close> and
  \<open>x-max-priority\<close> set exactly when the option is greater than zero, and
  \<open>x-max-retries\<close> set only when the option is greater than zero. Every other key
  is the caller's. The witness is the example of the specification: queue
  \<open>orders\<close> with DLX \<open>orders-dlx\<close>, 3 retries and a TTL of 60000.
\<close>

theorem queue_args_composition:
  "fst (snd (DeclareQueueWithDLX br queue options w)) =
     fst w @ [Broker (QueueDeclare queue (qo_Durable options) (qo_AutoDelete options)
                (qo_Exclusive options) (qo_NoWait options) (Some (queue_args queue options)))] \<and>
   (k \<notin> {''x-dead-letter-exchange'', ''x-dead-letter-routing-key'', ''x-message-ttl'',
          ''x-max-length'', ''x-max-priority'', ''x-max-retries''} \<longrightarrow>
      queue_args queue options k = caller_args options k) \<and>
   queue_args queue options ''x-dead-letter-exchange'' =
     (if DLXName options \<noteq> '''' then Some (VString (DLXName options))
      else caller_args options ''x-dead-letter-exchange'') \<and>
   queue_args queue options ''x-dead-letter-routing-key'' =
     (if DLXName options \<noteq> '''' then
        Some (VString (if DLXRoutingKey options = '''' then queue else DLXRoutingKey options))
      else caller_args options ''x-dead-letter-routing-key'') \<and>
   queue_args queue options ''x-message-ttl'' =
     (if MessageTTL options > 0 then Some (VInt (MessageTTL options))
      else caller_args options ''x-message-ttl'') \<and>
   queue_args queue options ''x-max-length'' =
     (if MaxLength options > 0 then Some (VInt (MaxLength options))
      else caller_args options ''x-max-length'') \<and>
   queue_args queue options ''x-max-priority'' =
     (if MaxPriority options > 0 then Some (VUint8 (MaxPriority options))
      else caller_args options ''x-max-priority'') \<and>
   (\<not> MaxRetries options > 0 \<longrightarrow>
      queue_args queue options ''x-max-retries'' = caller_args options ''x-max-retries'') \<and>
   (MaxRetries options > 0 \<and> caller_args options ''x-max-retries'' = None \<longrightarrow>
      queue_args queue options ''x-max-retries'' = Some (VInt (MaxRetries options)))"
proof (intro conjI)
  show "\<not> MaxRetries options > 0 \<longrightarrow>
      queue_args queue options ''x-max-retries'' = caller_args options ''x-max-retries''"
    by (simp add: qa_retries)
  show "MaxRetries options > 0 \<and> caller_args options ''x-max-retries'' = None \<longrightarrow>
      queue_args queue options ''x-max-retries'' = Some (VInt (MaxRetries options))"
    by (simp add: qa_retries index_table_def)
  show "k \<notin> {''x-dead-letter-exchange'', ''x-dead-letter-routing-key'', ''x-message-ttl'',
          ''x-max-length'', ''x-max-priority'', ''x-max-retries''} \<longrightarrow>
      queue_args queue options k = caller_args options k"
    by (rule impI) (rule qa_other)
qed (rule dq_trace qa_dlx qa_rk qa_ttl qa_len qa_prio)+

theorem queue_args_composition_witness:
  "queue_args ''orders'' orders_options ''x-dead-letter-exchange'' = Some (VString ''orders-dlx'') \<and>
   queue_args ''orders'' orders_options ''x-dead-letter-routing-key'' = Some (VString ''orders'') \<and>
   queue_args ''orders'' orders_options ''x-message-ttl'' = Some (VInt 60000) \<and>
   queue_args ''orders'' orders_options ''x-max-retries'' = Some (VInt 3) \<and>
   queue_args ''orders'' orders_options ''x-max-length'' = None \<and>
   queue_args ''orders'' orders_options ''x-max-priority'' = None \<and>
   queue_args ''jobs'' plain_options ''x-queue-mode'' = Some (VString ''lazy'') \<and>
   queue_args ''jobs'' plain_options ''x-max-retries'' = None \<and>
   queue_args ''jobs'' plain_options ''x-dead-letter-exchange'' = None"
  using queue_args_composition [of "(\<lambda>s c. (None, s)) :: unit broker" "''orders''" orders_options "([], ())" "''x-queue-mode''"]
    queue_args_composition [of "(\<lambda>s c. (None, s)) :: unit broker" "''jobs''" plain_options "([], ())" "''x-queue-mode''"]
  by (simp add: orders_options_def plain_options_def caller_args_def)

text \<open>
  Claim C10. An entry \<open>x-max-retries\<close> of the caller's additional arguments that
  is not the nil interface is kept, whatever \<open>MaxRetries\<close> is; the entries written
  for \<open>DLXName\<close>, \<open>DLXRoutingKey\<close>, \<open>MessageTTL\<close>,
  \<open>MaxLength\<close> and \<open>MaxPriority\<close> replace whatever the caller put under
  the same keys.
\<close>

theorem max_retries_kept_others_overwritten:
  "(\<forall>a v. AdditionalArgs options = Some a \<and> a ''x-max-retries'' = Some v \<and> v \<noteq> VNil \<longrightarrow>
      queue_args queue options ''x-max-retries'' = Some v) \<and>
   (DLXName options \<noteq> '''' \<longrightarrow>
      queue_args queue options ''x-dead-letter-exchange'' = Some (VString (DLXName options)) \<and>
      queue_args queue options ''x-dead-letter-routing-key'' =
        Some (VString (if DLXRoutingKey options = '''' then queue else DLXRoutingKey options))) \<and>
   (MessageTTL options > 0 \<longrightarrow>
      queue_args queue options ''x-message-ttl'' = Some (VInt (MessageTTL options))) \<and>
   (MaxLength options > 0 \<longrightarrow>
      queue_args queue options ''x-max-length'' = Some (VInt (MaxLength options))) \<and>
   (MaxPriority options > 0 \<longrightarrow>
      queue_args queue options ''x-max-priority'' = Some (VUint8 (MaxPriority options)))"
  by (simp add: qa_dlx qa_rk qa_ttl qa_len qa_prio qa_retries index_table_def caller_args_def)

theorem max_retries_kept_others_overwritten_witness:
  "queue_args ''orders'' crowded_options ''x-max-retries'' = Some (VInt 1) \<and>
   queue_args ''orders'' crowded_options ''x-dead-letter-exchange'' = Some (VString ''orders-dlx'') \<and>
   queue_args ''orders'' crowded_options ''x-dead-letter-routing-key'' = Some (VString ''dead'') \<and>
   queue_args ''orders'' crowded_options ''x-message-ttl'' = Some (VInt 60000) \<and>
   queue_args ''orders'' crowded_options ''x-max-length'' = Some (VInt 100) \<and>
   queue_args ''orders'' crowded_options ''x-max-priority'' = Some (VUint8 9)"
  using max_retries_kept_others_overwritten [of crowded_options "''orders''"]
  by (simp add: crowded_options_def)

subsection \<open>Retrofitting a queue with dead-letter arguments\<close>

lemma DeclareDLX_eq:
  "br s (dlx_declare dlxName options) = (e, s') \<Longrightarrow>
   DeclareDLX br dlxName options (tr, s) =
     ((case e of None \<Rightarrow> None | Some m \<Rightarrow> Some (''failed to declare DLX: '' @ m)),
      (tr @ [Broker (dlx_declare dlxName options)], s'))"
  by (simp add: DeclareDLX_def do_call_def Let_def split: option.splits)

lemma DeclareDLQ_ok:
  "br s (QueueDeclare dlqName (dlq_Durable options) (dlq_AutoDelete options)
           (dlq_Exclusive options) (dlq_NoWait options) (dlq_Args options)) = (None, s1) \<Longrightarrow>
   br s1 (QueueBind dlqName dlqName dlxName (dlq_NoWait options) None) = (e, s2) \<Longrightarrow>
   DeclareDLQ br dlqName dlxName options (tr, s) =
     ((case e of None \<Rightarrow> None | Some m \<Rightarrow> Some (''failed to bind DLQ to DLX: '' @ m)),
      (tr @ [Broker (QueueDeclare dlqName (dlq_Durable options) (dlq_AutoDelete options)
           (dlq_Exclusive options) (dlq_NoWait options) (dlq_Args options)),
             Broker (QueueBind dlqName dlqName dlxName (dlq_NoWait options) None)], s2))"
  by (simp add: DeclareDLQ_def do_call_def split: option.splits)

lemma DeclareDLQ_fail:
  "br s (QueueDeclare dlqName (dlq_Durable options) (dlq_AutoDelete options)
           (dlq_Exclusive options) (dlq_NoWait options) (dlq_Args options)) = (Some m, s1) \<Longrightarrow>
   DeclareDLQ br dlqName dlxName options (tr, s) =
     (Some (''failed to declare DLQ: '' @ m),
      (tr @ [Broker (QueueDeclare dlqName (dlq_Durable options) (dlq_AutoDelete options)
           (dlq_Exclusive options) (dlq_NoWait options) (dlq_Args options))], s1))"
  by (simp add: DeclareDLQ_def do_call_def split: option.splits)

lemma Setup_dlx_fails:
  assumes "br s0 (dlx_declare dlxName options) = (Some m, s1)"
  shows "SetupDLXForQueue br queueName dlxName dlqName options (tr, s0) =
           (Some (''failed to setup DLX: failed to declare DLX: '' @ m),
            (tr @ map Broker [dlx_declare dlxName options], s1))"
  using DeclareDLX_eq [of br s0 dlxName options "Some m" s1 tr] assms
  by (simp add: SetupDLXForQueue_def)

lemma Setup_dlq_declare_fails:
  assumes "br s0 (dlx_declare dlxName options) = (None, s1)"
    and "br s1 (dlq_declare dlqName options) = (Some m, s2)"
  shows "SetupDLXForQueue br queueName dlxName dlqName options (tr, s0) =
           (Some (''failed to setup DLQ: failed to declare DLQ: '' @ m),
            (tr @ map Broker [dlx_declare dlxName options, dlq_declare dlqName options], s2))"
proof -
  let ?o = "\<lparr>dlq_Durable = dlx_Durable options, dlq_AutoDelete = False,
             dlq_Exclusive = False, dlq_NoWait = dlx_NoWait options, dlq_Args = None\<rparr>"
  have dlx: "DeclareDLX br dlxName options (tr, s0)
               = (None, (tr @ [Broker (dlx_declare dlxName options)], s1))"
    using DeclareDLX_eq [of br s0 dlxName options None s1 tr] assms(1) by simp
  have dlq: "DeclareDLQ br dlqName dlxName ?o (tr', s1) =
               (Some (''failed to declare DLQ: '' @ m),
                (tr' @ [Broker (dlq_declare dlqName options)], s2))" for tr'
    using DeclareDLQ_fail [of br s1 dlqName ?o m s2 dlxName tr'] assms(2) by simp
  show ?thesis
    by (simp add: SetupDLXForQueue_def dlx dlq)
qed

lemma Setup_dlq_bind_fails:
  assumes "br s0 (dlx_declare dlxName options) = (None, s1)"
    and "br s1 (dlq_declare dlqName options) = (None, s2)"
    and "br s2 (dlq_bind dlqName dlxName options) = (Some m, s3)"
  shows "SetupDLXForQueue br queueName dlxName dlqName options (tr, s0) =
           (Some (''failed to setup DLQ: failed to bind DLQ to DLX: '' @ m),
            (tr @ map Broker [dlx_declare dlxName options, dlq_declare dlqName options,
                              dlq_bind dlqName dlxName options], s3))"
proof -
  let ?o = "\<lparr>dlq_Durable = dlx_Durable options, dlq_AutoDelete = False,
             dlq_Exclusive = False, dlq_NoWait = dlx_NoWait options, dlq_Args = None\<rparr>"
  have dlx: "DeclareDLX br dlxName options (tr, s0)
               = (None, (tr @ [Broker (dlx_declare dlxName options)], s1))"
    using DeclareDLX_eq [of br s0 dlxName options None s1 tr] assms(1) by simp
  have dlq: "DeclareDLQ br dlqName dlxName ?o (tr', s1) =
               (Some (''failed to bind DLQ to DLX: '' @ m),
                (tr' @ [Broker (dlq_declare dlqName options),
                        Broker (dlq_bind dlqName dlxName options)], s3))" for tr'
    using DeclareDLQ_ok [of br s1 dlqName ?o s2 dlxName "Some m" s3 tr'] assms(2,3) by simp
  show ?thesis
    by (simp add: SetupDLXForQueue_def dlx dlq)
qed

lemma Setup_after_dlq:
  assumes "br s0 (dlx_declare dlxName options) = (None, s1)"
    and "br s1 (dlq_declare dlqName options) = (None, s2)"
    and "br s2 (dlq_bind dlqName dlxName options) = (None, s3)"
    and "br s3 (probe_queue queueName) = (perr, s4)"
  shows "SetupDLXForQueue br queueName dlxName dlqName options (tr, s0) =
     (let w4 = (tr @ map Broker [dlx_declare dlxName options, dlq_declare dlqName options,
                              dlq_bind dlqName dlxName options, probe_queue queueName], s4) in
      if perr \<noteq> None then
        (case do_call br (declare_with_dlx queueName dlxName dlqName options) w4 of
           (Some err, w5) \<Rightarrow> (Some (''failed to declare queue with DLX: '' @ err), w5)
         | (None, w5) \<Rightarrow> (None, w5))
      else
        (case do_call br (declare_with_dlx queueName dlxName dlqName options)
                (snd (do_call br (delete_queue queueName) w4)) of
           (Some err, w5) \<Rightarrow> (Some (''failed to recreate queue with DLX: '' @ err), w5)
         | (None, w5) \<Rightarrow> (None, w5)))"
proof -
  let ?o = "\<lparr>dlq_Durable = dlx_Durable options, dlq_AutoDelete = False,
             dlq_Exclusive = False, dlq_NoWait = dlx_NoWait options, dlq_Args = None\<rparr>"
  have dlx: "DeclareDLX br dlxName options (tr, s0)
               = (None, (tr @ [Broker (dlx_declare dlxName options)], s1))"
    using DeclareDLX_eq [of br s0 dlxName options None s1 tr] assms(1) by simp
  have dlq: "DeclareDLQ br dlqName dlxName ?o (tr', s1) =
               (None, (tr' @ [Broker (dlq_declare dlqName options),
                        Broker (dlq_bind dlqName dlxName options)], s3))" for tr'
    using DeclareDLQ_ok [of br s1 dlqName ?o s2 dlxName None s3 tr'] assms(2,3) by simp
  have pr: "do_call br (probe_queue queueName) (tr', s3) = (perr, (tr' @ [Broker (probe_queue queueName)], s4))" for tr'
    using assms(4) by (simp add: do_call_def)
  show ?thesis
    by (simp add: SetupDLXForQueue_def dlx dlq pr Let_def split: prod.splits)
qed

lemma Setup_absent:
  assumes "br s0 (dlx_declare dlxName options) = (None, s1)"
    and "br s1 (dlq_declare dlqName options) = (None, s2)"
    and "br s2 (dlq_bind dlqName dlxName options) = (None, s3)"
    and "br s3 (probe_queue queueName) = (Some m, s4)"
    and "br s4 (declare_with_dlx queueName dlxName dlqName options) = (err, s5)"
  shows "SetupDLXForQueue br queueName dlxName dlqName options (tr, s0) =
           ((case err of None \<Rightarrow> None
             | Some m \<Rightarrow> Some (''failed to declare queue with DLX: '' @ m)),
            (tr @ map Broker
               [dlx_declare dlxName options, dlq_declare dlqName options,
                dlq_bind dlqName dlxName options, probe_queue queueName,
                declare_with_dlx queueName dlxName dlqName options], s5))"
  using assms(5)
  by (cases err) (simp_all add: Setup_after_dlq [OF assms(1-4)] do_call_def)

lemma Setup_present:
  assumes "br s0 (dlx_declare dlxName options) = (None, s1)"
    and "br s1 (dlq_declare dlqName options) = (None, s2)"
    and "br s2 (dlq_bind dlqName dlxName options) = (None, s3)"
    and "br s3 (probe_queue queueName) = (None, s4)"
    and "br s4 (delete_queue queueName) = (derr, s5)"
    and "br s5 (declare_with_dlx queueName dlxName dlqName options) = (err, s6)"
  shows "SetupDLXForQueue br queueName dlxName dlqName options (tr, s0) =
           ((case err of None \<Rightarrow> None
             | Some m \<Rightarrow> Some (''failed to recreate queue with DLX: '' @ m)),
            (tr @ map Broker
               [dlx_declare dlxName options, dlq_declare dlqName options,
                dlq_bind dlqName dlxName options, probe_queue queueName, delete_queue queueName,
                declare_with_dlx queueName dlxName dlqName options], s6))"
  using assms(5,6)
  by (cases err) (simp_all add: Setup_after_dlq [OF assms(1-4)] do_call_def)

lemma Setup_outcomes:
  "\<exists>e s'.
     SetupDLXForQueue br queueName dlxName dlqName options ([], s) =
       (Some e, (map Broker [dlx_declare dlxName options], s')) \<or>
     SetupDLXForQueue br queueName dlxName dlqName options ([], s) =
       (Some e, (map Broker [dlx_declare dlxName options, dlq_declare dlqName options], s')) \<or>
     SetupDLXForQueue br queueName dlxName dlqName options ([], s) =
       (Some e, (map Broker [dlx_declare dlxName options, dlq_declare dlqName options,
                             dlq_bind dlqName dlxName options], s')) \<or>
     (\<exists>r. SetupDLXForQueue br queueName dlxName dlqName options ([], s) =
       (r, (map Broker [dlx_declare dlxName options, dlq_declare dlqName options,
                        dlq_bind dlqName dlxName options, probe_queue queueName,
                        declare_with_dlx queueName dlxName dlqName options], s'))) \<or>
     (\<exists>r. SetupDLXForQueue br queueName dlxName dlqName options ([], s) =
       (r, (map Broker [dlx_declare dlxName options, dlq_declare dlqName options,
                        dlq_bind dlqName dlxName options, probe_queue queueName, delete_queue queueName,
                        declare_with_dlx queueName dlxName dlqName options], s')))"
proof -
  obtain e1 s1 where 1: "br s (dlx_declare dlxName options) = (e1, s1)" by fastforce
  obtain e2 s2 where 2: "br s1 (dlq_declare dlqName options) = (e2, s2)" by fastforce
  obtain e3 s3 where 3: "br s2 (dlq_bind dlqName dlxName options) = (e3, s3)" by fastforce
  obtain e4 s4 where 4: "br s3 (probe_queue queueName) = (e4, s4)" by fastforce
  obtain e5 s5 where 5: "br s4 (delete_queue queueName) = (e5, s5)" by fastforce
  obtain e6 s6 where 6: "br s5 (declare_with_dlx queueName dlxName dlqName options) = (e6, s6)"
    by fastforce
  obtain e7 s7 where 7: "br s4 (declare_with_dlx queueName dlxName dlqName options) = (e7, s7)"
    by fastforce
  show ?thesis
  proof (cases e1)
    case (Some m)
    with 1 have a: "br s (dlx_declare dlxName options) = (Some m, s1)" by simp
    show ?thesis
      unfolding Setup_dlx_fails [where br = br, OF a] append_Nil by blast
  next
    case None
    with 1 have a: "br s (dlx_declare dlxName options) = (None, s1)" by simp
    show ?thesis
    proof (cases e2)
      case (Some m)
      with 2 have b: "br s1 (dlq_declare dlqName options) = (Some m, s2)" by simp
      show ?thesis
        unfolding Setup_dlq_declare_fails [where br = br, OF a b] append_Nil by blast
    next
      case None
      with 2 have b: "br s1 (dlq_declare dlqName options) = (None, s2)" by simp
      show ?thesis
      proof (cases e3)
        case (Some m)
        with 3 have c: "br s2 (dlq_bind dlqName dlxName options) = (Some m, s3)" by simp
        show ?thesis
          unfolding Setup_dlq_bind_fails [where br = br, OF a b c] append_Nil by blast
      next
        case None
        with 3 have c: "br s2 (dlq_bind dlqName dlxName options) = (None, s3)" by simp
        show ?thesis
        proof (cases e4)
          case (Some m)
          with 4 have d: "br s3 (probe_queue queueName) = (Some m, s4)" by simp
          show ?thesis
            unfolding Setup_absent [where br = br, OF a b c d 7] append_Nil by blast
        next
          case None
          with 4 have d: "br s3 (probe_queue queueName) = (None, s4)" by simp
          show ?thesis
            unfolding Setup_present [where br = br, OF a b c d 5 6] append_Nil by blast
        qed
      qed
    qed
  qed
qed

lemma Setup_calls:
  "set (fst (snd (SetupDLXForQueue br queueName dlxName dlqName options ([], s)))) \<subseteq>
     Broker ` {dlx_declare dlxName options, dlq_declare dlqName options,
               dlq_bind dlqName dlxName options, probe_queue queueName, delete_queue queueName,
               declare_with_dlx queueName dlxName dlqName options}"
  using Setup_outcomes [of br queueName dlxName dlqName options s]
  by (elim exE disjE) simp_all

lemma Setup_success:
  assumes "fst (SetupDLXForQueue br queueName dlxName dlqName options ([], s)) = None"
  shows "Broker (dlq_bind dlqName dlxName options)
     \<in> set (fst (snd (SetupDLXForQueue br queueName dlxName dlqName options ([], s)))) \<and>
   Broker (declare_with_dlx queueName dlxName dlqName options)
     \<in> set (fst (snd (SetupDLXForQueue br queueName dlxName dlqName options ([], s))))"
  using Setup_outcomes [of br queueName dlxName dlqName options s] assms
  by (elim exE disjE) simp_all

lemma DeclareDLQ_calls:
  "set (fst (snd (DeclareDLQ br dlqName dlxName options (tr, s)))) \<subseteq> set tr \<union>
     {Broker (QueueDeclare dlqName (dlq_Durable options) (dlq_AutoDelete options)
           (dlq_Exclusive options) (dlq_NoWait options) (dlq_Args options)),
      Broker (QueueBind dlqName dlqName dlxName (dlq_NoWait options) None)}"
  by (auto simp: DeclareDLQ_def do_call_def split: option.splits prod.splits)

lemma DeclareDLQ_success:
  "fst (DeclareDLQ br dlqName dlxName options w) = None \<Longrightarrow>
   Broker (QueueBind dlqName dlqName dlxName (dlq_NoWait options) None)
     \<in> set (fst (snd (DeclareDLQ br dlqName dlxName options w)))"
  by (auto simp: DeclareDLQ_def do_call_def split: option.splits prod.splits)

lemma setup_args_keys:
  "setup_args dlxName dlqName ''x-dead-letter-exchange'' = Some (VString dlxName)"
  "setup_args dlxName dlqName ''x-dead-letter-routing-key'' = Some (VString dlqName)"
  by (simp_all add: setup_args_def)

text \<open>
  Claim C3. When the exchange and the dead-letter queue are set up and the passive probe
  finds the queue, \<open>SetupDLXForQueue\<close> calls the delete and then, whatever the
  delete answers, the declare of the queue with the table that holds
  \<open>x-dead-letter-exchange\<close>, the exchange's name, and
  \<open>x-dead-letter-routing-key\<close>, the dead-letter queue's name, and nothing else. The
  result is an error exactly when that declare fails, and the declare is the last call:
  nothing undoes the exchange and the dead-letter queue of the first two steps.
\<close>

theorem setup_dlx_existing_queue:
  assumes "br s0 (dlx_declare dlxName options) = (None, s1)"
    and "br s1 (dlq_declare dlqName options) = (None, s2)"
    and "br s2 (dlq_bind dlqName dlxName options) = (None, s3)"
    and "br s3 (probe_queue queueName) = (None, s4)"
    and "br s4 (delete_queue queueName) = (derr, s5)"
    and "br s5 (QueueDeclare queueName (dlx_Durable options) False False False
                  (Some [''x-dead-letter-exchange'' \<mapsto> VString dlxName,
                         ''x-dead-letter-routing-key'' \<mapsto> VString dlqName])) = (err, s6)"
  shows "SetupDLXForQueue br queueName dlxName dlqName options (tr, s0) =
           ((case err of None \<Rightarrow> None
             | Some m \<Rightarrow> Some (''failed to recreate queue with DLX: '' @ m)),
            (tr @ map Broker
               [ExchangeDeclare dlxName (if Kind options = '''' then ''direct'' else Kind options)
                  (dlx_Durable options) (dlx_AutoDelete options) (Internal options)
                  (dlx_NoWait options) (dlx_Args options),
                QueueDeclare dlqName (dlx_Durable options) False False (dlx_NoWait options) None,
                QueueBind dlqName dlqName dlxName (dlx_NoWait options) None,
                QueueDeclarePassive queueName False False False False None,
                QueueDelete queueName False False False,
                QueueDeclare queueName (dlx_Durable options) False False False
                  (Some [''x-dead-letter-exchange'' \<mapsto> VString dlxName,
                         ''x-dead-letter-routing-key'' \<mapsto> VString dlqName])],
             s6))"
  using assms by (rule Setup_present [unfolded setup_args_def])

theorem setup_dlx_existing_queue_witness:
  "SetupDLXForQueue strict_broker ''orders'' ''orders-dlx'' ''orders-dlq'' no_dlx_options ([], ()) =
     (Some ''failed to recreate queue with DLX: inequivalent arg'',
      ([Broker (ExchangeDeclare ''orders-dlx'' ''direct'' False False False False None),
        Broker (QueueDeclare ''orders-dlq'' False False False False None),
        Broker (QueueBind ''orders-dlq'' ''orders-dlq'' ''orders-dlx'' False None),
        Broker (QueueDeclarePassive ''orders'' False False False False None),
        Broker (QueueDelete ''orders'' False False False),
        Broker (QueueDeclare ''orders'' False False False False
                  (Some [''x-dead-letter-exchange'' \<mapsto> VString ''orders-dlx'',
                         ''x-dead-letter-routing-key'' \<mapsto> VString ''orders-dlq'']))], ()))"
proof -
  have 1: "strict_broker () (dlx_declare ''orders-dlx'' no_dlx_options) = (None, ())"
    by (simp add: strict_broker_def)
  have 2: "strict_broker () (dlq_declare ''orders-dlq'' no_dlx_options) = (None, ())"
    by (simp add: strict_broker_def)
  have 3: "strict_broker () (dlq_bind ''orders-dlq'' ''orders-dlx'' no_dlx_options) = (None, ())"
    by (simp add: strict_broker_def)
  have 4: "strict_broker () (probe_queue ''orders'') = (None, ())"
    by (simp add: strict_broker_def)
  have 5: "strict_broker () (delete_queue ''orders'') = (Some ''PRECONDITION_FAILED'', ())"
    by (simp add: strict_broker_def)
  have 6: "strict_broker () (QueueDeclare ''orders'' (dlx_Durable no_dlx_options) False False
             False (Some [''x-dead-letter-exchange'' \<mapsto> VString ''orders-dlx'',
                          ''x-dead-letter-routing-key'' \<mapsto> VString ''orders-dlq'']))
             = (Some ''inequivalent arg'', ())"
    by (simp add: strict_broker_def)
  show ?thesis
    using setup_dlx_existing_queue [where br = strict_broker and ?s0.0 = "()" and ?s1.0 = "()"
        and ?s2.0 = "()" and ?s3.0 = "()" and ?s4.0 = "()" and ?s5.0 = "()" and tr = "[]",
        OF 1 2 3 4 5 6]
    by (simp add: no_dlx_options_def)
qed

text \<open>
  Claim C8. Every bind that \<open>DeclareDLQ\<close> issues binds the dead-letter queue to
  the exchange under the queue's own name as routing key, and it issues one whenever it
  succeeds. In \<open>SetupDLXForQueue\<close> every bind has the dead-letter queue's name as
  routing key, and every declare that carries arguments is for the source queue with
  \<open>x-dead-letter-exchange\<close> the exchange and \<open>x-dead-letter-routing-key\<close>
  the dead-letter queue's name: the two routing keys are equal. On success both calls
  are made.
\<close>

theorem dlq_binding_matches_dead_letter_key:
  "(\<forall>q rk ex nw a.
      Broker (QueueBind q rk ex nw a)
        \<in> set (fst (snd (DeclareDLQ br dlqName dlxName dlqOptions ([], s)))) \<longrightarrow>
      q = dlqName \<and> rk = dlqName \<and> ex = dlxName) \<and>
   (fst (DeclareDLQ br dlqName dlxName dlqOptions ([], s)) = None \<longrightarrow>
      Broker (QueueBind dlqName dlqName dlxName (dlq_NoWait dlqOptions) None)
        \<in> set (fst (snd (DeclareDLQ br dlqName dlxName dlqOptions ([], s))))) \<and>
   (\<forall>q rk ex nw a.
      Broker (QueueBind q rk ex nw a)
        \<in> set (fst (snd (SetupDLXForQueue br queueName dlxName dlqName options ([], s)))) \<longrightarrow>
      q = dlqName \<and> rk = dlqName \<and> ex = dlxName) \<and>
   (\<forall>q d ad e n args.
      Broker (QueueDeclare q d ad e n (Some args))
        \<in> set (fst (snd (SetupDLXForQueue br queueName dlxName dlqName options ([], s)))) \<longrightarrow>
      q = queueName \<and>
      args ''x-dead-letter-exchange'' = Some (VString dlxName) \<and>
      args ''x-dead-letter-routing-key'' = Some (VString dlqName)) \<and>
   (fst (SetupDLXForQueue br queueName dlxName dlqName options ([], s)) = None \<longrightarrow>
      Broker (QueueBind dlqName dlqName dlxName (dlx_NoWait options) None)
        \<in> set (fst (snd (SetupDLXForQueue br queueName dlxName dlqName options ([], s)))) \<and>
      Broker (QueueDeclare queueName (dlx_Durable options) False False False
                (Some (setup_args dlxName dlqName)))
        \<in> set (fst (snd (SetupDLXForQueue br queueName dlxName dlqName options ([], s)))))"
proof (intro conjI allI impI)
  fix q rk ex nw a
  assume "Broker (QueueBind q rk ex nw a)
            \<in> set (fst (snd (DeclareDLQ br dlqName dlxName dlqOptions ([], s))))"
  with DeclareDLQ_calls [of br dlqName dlxName dlqOptions "[]" s]
  have "QueueBind q rk ex nw a = QueueBind dlqName dlqName dlxName (dlq_NoWait dlqOptions) None"
    by auto
  then show "q = dlqName" "rk = dlqName" "ex = dlxName" by simp_all
next
  assume "fst (DeclareDLQ br dlqName dlxName dlqOptions ([], s)) = None"
  then show "Broker (QueueBind dlqName dlqName dlxName (dlq_NoWait dlqOptions) None)
        \<in> set (fst (snd (DeclareDLQ br dlqName dlxName dlqOptions ([], s))))"
    by (rule DeclareDLQ_success)
next
  fix q rk ex nw a
  assume "Broker (QueueBind q rk ex nw a)
        \<in> set (fst (snd (SetupDLXForQueue br queueName dlxName dlqName options ([], s))))"
  with Setup_calls [of br queueName dlxName dlqName options s]
  have "QueueBind q rk ex nw a = QueueBind dlqName dlqName dlxName (dlx_NoWait options) None"
    by auto
  then show "q = dlqName" "rk = dlqName" "ex = dlxName" by simp_all
next
  fix q d ad e n args
  assume "Broker (QueueDeclare q d ad e n (Some args))
        \<in> set (fst (snd (SetupDLXForQueue br queueName dlxName dlqName options ([], s))))"
  with Setup_calls [of br queueName dlxName dlqName options s]
  have "QueueDeclare q d ad e n (Some args) =
          QueueDeclare queueName (dlx_Durable options) False False False
            (Some (setup_args dlxName dlqName))"
    by auto
  then have "q = queueName" "args = setup_args dlxName dlqName" by simp_all
  then show "q = queueName"
    "args ''x-dead-letter-exchange'' = Some (VString dlxName)"
    "args ''x-dead-letter-routing-key'' = Some (VString dlqName)"
    by (simp_all add: setup_args_keys)
next
  assume "fst (SetupDLXForQueue br queueName dlxName dlqName options ([], s)) = None"
  from Setup_success [OF this]
  show "Broker (QueueBind dlqName dlqName dlxName (dlx_NoWait options) None)
        \<in> set (fst (snd (SetupDLXForQueue br queueName dlxName dlqName options ([], s))))"
    "Broker (QueueDeclare queueName (dlx_Durable options) False False False
                (Some (setup_args dlxName dlqName)))
        \<in> set (fst (snd (SetupDLXForQueue br queueName dlxName dlqName options ([], s))))"
    by simp_all
qed

theorem dlq_binding_matches_dead_letter_key_witness:
  "fst (SetupDLXForQueue accepting_broker ''orders'' ''orders-dlx'' ''orders-dlq''
          no_dlx_options ([], ())) = None \<and>
   Broker (QueueBind ''orders-dlq'' ''orders-dlq'' ''orders-dlx'' False None)
     \<in> set (fst (snd (SetupDLXForQueue accepting_broker ''orders'' ''orders-dlx''
                         ''orders-dlq'' no_dlx_options ([], ())))) \<and>
   Broker (QueueDeclare ''orders'' False False False False
             (Some (setup_args ''orders-dlx'' ''orders-dlq'')))
     \<in> set (fst (snd (SetupDLXForQueue accepting_broker ''orders'' ''orders-dlx''
                         ''orders-dlq'' no_dlx_options ([], ())))) \<and>
   setup_args ''orders-dlx'' ''orders-dlq'' ''x-dead-letter-routing-key''
     = Some (VString ''orders-dlq'')"
proof -
  let ?T = "fst (snd (SetupDLXForQueue accepting_broker ''orders'' ''orders-dlx''
                         ''orders-dlq'' no_dlx_options ([], ())))"
  have ok: "fst (SetupDLXForQueue accepting_broker ''orders'' ''orders-dlx'' ''orders-dlq''
                   no_dlx_options ([], ())) = None"
    by (simp add: SetupDLXForQueue_def DeclareDLX_def DeclareDLQ_def do_call_def
          accepting_broker_def Let_def)
  note t = dlq_binding_matches_dead_letter_key
             [of accepting_broker "''orders-dlq''" "''orders-dlx''"
                 "\<lparr>dlq_Durable = False, dlq_AutoDelete = False, dlq_Exclusive = False,
                   dlq_NoWait = False, dlq_Args = None\<rparr>" "()"
                 "''orders''" no_dlx_options]
  note t4 = t [THEN conjunct2, THEN conjunct2, THEN conjunct2, THEN conjunct1, rule_format]
  note t5 = t [THEN conjunct2, THEN conjunct2, THEN conjunct2, THEN conjunct2, rule_format, OF ok]
  note m1 = t5 [THEN conjunct1] and m2 = t5 [THEN conjunct2]
  note k = t4 [OF m2, THEN conjunct2, THEN conjunct2]
  have f: "dlx_NoWait no_dlx_options = False" "dlx_Durable no_dlx_options = False"
    by (simp_all add: no_dlx_options_def)
  from ok m1 m2 k show ?thesis
    unfolding f by (intro conjI)
qed

subsection \<open>Consumer\<close>

lemma handle_deliveries_trace:
  "fst (handle_deliveries br handler options ds w)
     = fst w @ loop_events handler (AutoAck options) ds"
  by (induction ds arbitrary: w)
     (simp_all add: invoke_def do_call_def split: outcome.splits option.splits prod.splits)

lemma loop_events_append:
  "\<forall>x\<in>set pre. handler x \<noteq> Blocks \<Longrightarrow>
   loop_events handler a (pre @ rest) = loop_events handler a pre @ loop_events handler a rest"
  by (induction pre) (auto split: outcome.splits option.splits)

lemma loop_events_Ack:
  "Broker (Ack t m) \<in> set (loop_events handler a ds) \<Longrightarrow>
   \<not> a \<and> \<not> m \<and> (\<exists>x\<in>set ds. DeliveryTag x = t \<and> handler x = Returns None)"
  by (induction ds) (auto split: outcome.splits option.splits if_splits)

lemma loop_events_Nack:
  "Broker (Nack t m rq) \<in> set (loop_events handler a ds) \<Longrightarrow>
   \<not> a \<and> \<not> m \<and> rq \<and> (\<exists>x\<in>set ds. DeliveryTag x = t \<and> handler x \<noteq> Returns None)"
  by (induction ds) (auto split: outcome.splits option.splits if_splits)

lemma handle_deliveries_blocked:
  "\<forall>x\<in>set pre. handler x \<noteq> Blocks \<Longrightarrow> handler d = Blocks \<Longrightarrow>
   handle_deliveries br handler options (pre @ d # post) w
     = invoke d (handle_deliveries br handler options pre w)"
  by (induction pre arbitrary: w) (simp_all split: outcome.splits option.splits)

lemma invoked_append: "invoked (xs @ ys) = invoked xs @ invoked ys"
  by (induction xs rule: invoked.induct) simp_all

lemma invoked_loop_events:
  "prefix (invoked (loop_events handler a ds)) ds"
  by (induction ds) (auto simp: invoked_append split: outcome.splits option.splits)

lemma Consume_accepted:
  assumes "br s (Consume queue (if Consumer options = '''' then fresh else Consumer options)
                   (AutoAck options) (co_Exclusive options) (NoLocal options)
                   (co_NoWait options) (co_Args options)) = (None, s')"
  shows "ConsumeWithOptions br fresh deliveries queue handler options (tr, s) =
           (None,
            (tr @ [Broker (Consume queue (if Consumer options = '''' then fresh
                                          else Consumer options)
                   (AutoAck options) (co_Exclusive options) (NoLocal options)
                   (co_NoWait options) (co_Args options))], s'),
            handle_deliveries br handler options deliveries
              (tr @ [Broker (Consume queue (if Consumer options = '''' then fresh
                                            else Consumer options)
                   (AutoAck options) (co_Exclusive options) (NoLocal options)
                   (co_NoWait options) (co_Args options))], s'))"
  using assms by (simp add: ConsumeWithOptions_def do_call_def Let_def)

lemma same_tag_same_delivery:
  "distinct (map DeliveryTag ds) \<Longrightarrow> x \<in> set ds \<Longrightarrow> y \<in> set ds \<Longrightarrow>
   DeliveryTag x = DeliveryTag y \<Longrightarrow> x = y"
  by (meson distinct_map inj_on_eq_iff)

lemma no_Ack_unless_success:
  assumes "distinct (map DeliveryTag ds)" and "d \<in> set ds" and "handler d \<noteq> Returns None"
  shows "Broker (Ack (DeliveryTag d) m) \<notin> set (loop_events handler a ds)"
proof
  assume "Broker (Ack (DeliveryTag d) m) \<in> set (loop_events handler a ds)"
  then obtain x where "x \<in> set ds" "DeliveryTag x = DeliveryTag d" "handler x = Returns None"
    using loop_events_Ack by blast
  with assms show False
    using same_tag_same_delivery by blast
qed

lemma no_Nack_unless_failure:
  assumes "distinct (map DeliveryTag ds)" and "d \<in> set ds" and "handler d = Returns None"
  shows "Broker (Nack (DeliveryTag d) m rq) \<notin> set (loop_events handler a ds)"
proof
  assume "Broker (Nack (DeliveryTag d) m rq) \<in> set (loop_events handler a ds)"
  then obtain x where "x \<in> set ds" "DeliveryTag x = DeliveryTag d" "handler x \<noteq> Returns None"
    using loop_events_Nack by blast
  with assms show False
    using same_tag_same_delivery by blast
qed

lemma other_tags:
  assumes "distinct (map DeliveryTag (pre @ d # post))"
  shows "\<forall>x\<in>set pre \<union> set post. DeliveryTag x \<noteq> DeliveryTag d"
proof
  fix x
  assume "x \<in> set pre \<union> set post"
  then have "DeliveryTag x \<in> DeliveryTag ` set pre \<union> DeliveryTag ` set post"
    by blast
  moreover from assms
  have "DeliveryTag d \<notin> DeliveryTag ` set pre \<union> DeliveryTag ` set post"
    by auto
  ultimately show "DeliveryTag x \<noteq> DeliveryTag d"
    by metis
qed

lemma count_Nack_one:
  assumes "distinct (map DeliveryTag (pre @ d # post))"
    and "\<forall>x\<in>set pre. handler x \<noteq> Blocks"
    and "handler d = Returns (Some e)"
  shows "count_list (loop_events handler False (pre @ d # post))
           (Broker (Nack (DeliveryTag d) False True)) = 1"
proof -
  have o: "\<forall>x\<in>set pre \<union> set post. DeliveryTag x \<noteq> DeliveryTag d"
    using assms(1) by (rule other_tags)
  have "Broker (Nack (DeliveryTag d) False True) \<notin> set (loop_events handler False pre)"
    using loop_events_Nack o by blast
  moreover have "Broker (Nack (DeliveryTag d) False True) \<notin> set (loop_events handler False post)"
    using loop_events_Nack o by blast
  ultimately show ?thesis
    using assms(2,3) by (simp add: loop_events_append)
qed

lemma count_Ack_one:
  assumes "distinct (map DeliveryTag (pre @ d # post))"
    and "\<forall>x\<in>set pre. handler x \<noteq> Blocks"
    and "handler d = Returns None"
  shows "count_list (loop_events handler False (pre @ d # post))
           (Broker (Ack (DeliveryTag d) False)) = 1"
proof -
  have o: "\<forall>x\<in>set pre \<union> set post. DeliveryTag x \<noteq> DeliveryTag d"
    using assms(1) by (rule other_tags)
  have "Broker (Ack (DeliveryTag d) False) \<notin> set (loop_events handler False pre)"
    using loop_events_Ack o by blast
  moreover have "Broker (Ack (DeliveryTag d) False) \<notin> set (loop_events handler False post)"
    using loop_events_Ack o by blast
  ultimately show ?thesis
    using assms(2,3) by (simp add: loop_events_append)
qed

lemma Consume_trace:
  assumes "br s (Consume queue (if Consumer options = '''' then fresh else Consumer options)
                   (AutoAck options) (co_Exclusive options) (NoLocal options)
                   (co_NoWait options) (co_Args options)) = (None, s')"
  shows "fst (snd (snd (ConsumeWithOptions br fresh deliveries queue handler options ([], s))))
           = Broker (Consume queue (if Consumer options = '''' then fresh else Consumer options)
                   (AutoAck options) (co_Exclusive options) (NoLocal options)
                   (co_NoWait options) (co_Args options))
             # loop_events handler (AutoAck options) deliveries"
  by (simp add: Consume_accepted [where br = br, OF assms] handle_deliveries_trace)

text \<open>
  Claim C1. Once the consume call is accepted, take a delivery \<open>d\<close> of the stream
  that the loop reaches (the handler returned on every delivery before it); delivery tags
  are distinct, as the broker numbers them. With auto-acknowledge off: if the handler
  returns an error on \<open>d\<close>, the trace holds exactly one negative acknowledgment
  for \<open>d\<close>'s tag, it asks for requeue and is for that single delivery, and the
  trace holds no positive acknowledgment for the tag; if the handler returns
  \<^verbatim>\<open>nil\<close>, the trace holds exactly one positive acknowledgment for the tag, for
  that single delivery, and no negative one. With auto-acknowledge on, the trace holds
  no acknowledgment and no rejection at all.
\<close>

theorem ack_nack_per_delivery:
  fixes T :: "event list"
  assumes "br s (Consume queue (if Consumer options = '''' then fresh else Consumer options)
                   (AutoAck options) (co_Exclusive options) (NoLocal options)
                   (co_NoWait options) (co_Args options)) = (None, s')"
    and "distinct (map DeliveryTag (pre @ d # post))"
    and "\<forall>x\<in>set pre. handler x \<noteq> Blocks"
  defines "T \<equiv> fst (snd (snd (ConsumeWithOptions br fresh (pre @ d # post) queue handler
                                   options ([], s))))"
  shows "(\<not> AutoAck options \<and> (\<exists>e. handler d = Returns (Some e)) \<longrightarrow>
            count_list T (Broker (Nack (DeliveryTag d) False True)) = 1 \<and>
            (\<forall>m rq. Broker (Nack (DeliveryTag d) m rq) \<in> set T \<longrightarrow> \<not> m \<and> rq) \<and>
            (\<forall>m. Broker (Ack (DeliveryTag d) m) \<notin> set T)) \<and>
         (\<not> AutoAck options \<and> handler d = Returns None \<longrightarrow>
            count_list T (Broker (Ack (DeliveryTag d) False)) = 1 \<and>
            (\<forall>m. Broker (Ack (DeliveryTag d) m) \<in> set T \<longrightarrow> \<not> m) \<and>
            (\<forall>m rq. Broker (Nack (DeliveryTag d) m rq) \<notin> set T)) \<and>
         (AutoAck options \<longrightarrow>
            (\<forall>t m. Broker (Ack t m) \<notin> set T) \<and> (\<forall>t m rq. Broker (Nack t m rq) \<notin> set T))"
proof -
  let ?E = "loop_events handler (AutoAck options) (pre @ d # post)"
  have T: "T = Broker (Consume queue (if Consumer options = '''' then fresh
                                      else Consumer options)
                   (AutoAck options) (co_Exclusive options) (NoLocal options)
                   (co_NoWait options) (co_Args options)) # ?E"
    unfolding T_def using assms(1) by (rule Consume_trace)
  have d: "d \<in> set (pre @ d # post)" by simp
  have 1: "count_list T (Broker (Nack (DeliveryTag d) False True)) = 1"
    if "\<not> AutoAck options" "handler d = Returns (Some e)" for e
    using count_Nack_one [OF assms(2,3) that(2)] that(1) by (simp add: T)
  have 2: "\<not> m \<and> rq" if "Broker (Nack (DeliveryTag d) m rq) \<in> set T" for m rq
    using that loop_events_Nack [of "DeliveryTag d" m rq handler "AutoAck options" "pre @ d # post"]
    by (simp add: T)
  have 3: "Broker (Ack (DeliveryTag d) m) \<notin> set T" if "handler d = Returns (Some e)" for m e
    using no_Ack_unless_success [where handler = handler and d = d, OF assms(2) d,
            of m "AutoAck options"] that
    by (simp add: T)
  have 4: "count_list T (Broker (Ack (DeliveryTag d) False)) = 1"
    if "\<not> AutoAck options" "handler d = Returns None"
    using count_Ack_one [OF assms(2,3) that(2)] that(1) by (simp add: T)
  have 5: "\<not> m" if "Broker (Ack (DeliveryTag d) m) \<in> set T" for m
    using that loop_events_Ack [of "DeliveryTag d" m handler "AutoAck options" "pre @ d # post"]
    by (simp add: T)
  have 6: "Broker (Nack (DeliveryTag d) m rq) \<notin> set T" if "handler d = Returns None" for m rq
    using no_Nack_unless_failure [where handler = handler and d = d, OF assms(2) d that,
            of m rq "AutoAck options"]
    by (simp add: T)
  have 7: "Broker (Ack t m) \<notin> set T" if "AutoAck options" for t m
    using that loop_events_Ack [of t m handler "AutoAck options" "pre @ d # post"]
    by (auto simp: T)
  have 8: "Broker (Nack t m rq) \<notin> set T" if "AutoAck options" for t m rq
    using that loop_events_Nack [of t m rq handler "AutoAck options" "pre @ d # post"]
    by (auto simp: T)
  show ?thesis
    using 1 2 3 4 5 6 7 8 by blast
qed

theorem ack_nack_per_delivery_witness:
  "count_list (fst (snd (snd (ConsumeWithOptions accepting_broker ''fresh''
       [delivery1, delivery2] ''orders'' failing_first manual_ack ([], ())))))
     (Broker (Nack 1 False True)) = 1 \<and>
   Broker (Ack 1 False) \<notin> set (fst (snd (snd (ConsumeWithOptions accepting_broker ''fresh''
       [delivery1, delivery2] ''orders'' failing_first manual_ack ([], ()))))) \<and>
   count_list (fst (snd (snd (ConsumeWithOptions accepting_broker ''fresh''
       [delivery1, delivery2] ''orders'' failing_first manual_ack ([], ())))))
     (Broker (Ack 2 False)) = 1 \<and>
   Broker (Nack 2 False True) \<notin> set (fst (snd (snd (ConsumeWithOptions accepting_broker
       ''fresh'' [delivery1, delivery2] ''orders'' failing_first manual_ack ([], ()))))) \<and>
   Broker (Nack 1 False True) \<notin> set (fst (snd (snd (ConsumeWithOptions accepting_broker
       ''fresh'' [delivery1, delivery2] ''orders'' failing_first auto_ack ([], ()))))) \<and>
   Broker (Ack 2 False) \<notin> set (fst (snd (snd (ConsumeWithOptions accepting_broker
       ''fresh'' [delivery1, delivery2] ''orders'' failing_first auto_ack ([], ())))))"
proof -
  have acc: "accepting_broker () (Consume ''orders''
               (if Consumer opts = '''' then ''fresh'' else Consumer opts)
               (AutoAck opts) (co_Exclusive opts) (NoLocal opts) (co_NoWait opts) (co_Args opts))
             = (None, ())" for opts
    by (simp add: accepting_broker_def)
  have dist: "distinct (map DeliveryTag ([] @ delivery1 # [delivery2]))"
    "distinct (map DeliveryTag ([delivery1] @ delivery2 # []))"
    by (simp_all add: delivery1_def delivery2_def)
  have nb: "\<forall>x\<in>set []. failing_first x \<noteq> Blocks" "\<forall>x\<in>set [delivery1]. failing_first x \<noteq> Blocks"
    by (simp_all add: failing_first_def)
  have h: "failing_first delivery1 = Returns (Some ''boom'')" "failing_first delivery2 = Returns None"
    by (simp_all add: failing_first_def delivery1_def delivery2_def)
  have t: "DeliveryTag delivery1 = 1" "DeliveryTag delivery2 = 2"
    by (simp_all add: delivery1_def delivery2_def)
  have o: "\<not> AutoAck manual_ack" "AutoAck auto_ack"
    by (simp_all add: manual_ack_def auto_ack_def)
  note a = ack_nack_per_delivery [where br = accepting_broker and s = "()" and s' = "()"
             and fresh = "''fresh''" and queue = "''orders''" and handler = failing_first]
  note m1 = a [where options = manual_ack and pre = "[]" and d = delivery1
                 and post = "[delivery2]", OF acc dist(1) nb(1)]
  note m2 = a [where options = manual_ack and pre = "[delivery1]" and d = delivery2
                 and post = "[]", OF acc dist(2) nb(2)]
  note a1 = a [where options = auto_ack and pre = "[]" and d = delivery1
                 and post = "[delivery2]", OF acc dist(1) nb(1)]
  from m1 m2 a1 h o show ?thesis
    unfolding t by simp
qed

text \<open>
  Claim C2 says that every delivery is handled as its own concurrent unit of work, so
  that a blocked handler never delays the dispatch or the acknowledgment of another
  delivery. The goroutine of \<open>ConsumeWithOptions\<close> wraps the whole loop, and the
  loop calls the handler itself: with two deliveries on the stream and a handler that
  blocks on the first, the handler is never called on the second, and the second is
  never acknowledged, although the handler would return \<^verbatim>\<open>nil\<close> on it.
\<close>

theorem blocked_handler_stops_dispatch_counterexample:
  "blocking_first delivery2 = Returns None \<and>
   fst (snd (snd (ConsumeWithOptions accepting_broker ''fresh'' [delivery1, delivery2]
                    ''orders'' blocking_first manual_ack ([], ())))) =
     [Broker (Consume ''orders'' ''c1'' False False False False None), Invoke delivery1]"
  by (simp add: ConsumeWithOptions_def do_call_def accepting_broker_def invoke_def
        manual_ack_def blocking_first_def delivery1_def delivery2_def Let_def)

text \<open>
  Claim C2, amended. Once the consume call is accepted, \<open>ConsumeWithOptions\<close>
  returns \<^verbatim>\<open>nil\<close> to its caller right after that call, whatever the handler does
  and whatever the stream carries. One background loop then takes the deliveries one at a
  time in the order of the stream: the deliveries on which the handler has been called
  are an initial segment of the stream, and when the handler does not return on a
  delivery, the run ends with the call of the handler on that delivery, so that no later
  delivery is dispatched or acknowledged.
\<close>

theorem consume_handles_one_at_a_time:
  assumes "br s (Consume queue (if Consumer options = '''' then fresh else Consumer options)
                   (AutoAck options) (co_Exclusive options) (NoLocal options)
                   (co_NoWait options) (co_Args options)) = (None, s')"
  shows "fst (ConsumeWithOptions br fresh deliveries queue handler options ([], s)) = None \<and>
         fst (snd (ConsumeWithOptions br fresh deliveries queue handler options ([], s))) =
           ([Broker (Consume queue (if Consumer options = '''' then fresh else Consumer options)
                       (AutoAck options) (co_Exclusive options) (NoLocal options)
                       (co_NoWait options) (co_Args options))], s') \<and>
         prefix (invoked (fst (snd (snd (ConsumeWithOptions br fresh deliveries queue handler
                                           options ([], s))))))
                deliveries \<and>
         (\<forall>pre d post.
            deliveries = pre @ d # post \<and> (\<forall>x\<in>set pre. handler x \<noteq> Blocks) \<and>
            handler d = Blocks \<longrightarrow>
            snd (snd (ConsumeWithOptions br fresh deliveries queue handler options ([], s))) =
              invoke d (snd (snd (ConsumeWithOptions br fresh pre queue handler options
                                    ([], s)))))"
proof -
  note c = Consume_accepted [where br = br and tr = "[]", OF assms]
  have 1: "fst (ConsumeWithOptions br fresh deliveries queue handler options ([], s)) = None"
    by (simp add: c)
  have 2: "fst (snd (ConsumeWithOptions br fresh deliveries queue handler options ([], s))) =
           ([Broker (Consume queue (if Consumer options = '''' then fresh else Consumer options)
                       (AutoAck options) (co_Exclusive options) (NoLocal options)
                       (co_NoWait options) (co_Args options))], s')"
    by (simp add: c)
  have 3: "prefix (invoked (fst (snd (snd (ConsumeWithOptions br fresh deliveries queue handler
                                           options ([], s))))))
                deliveries"
    by (simp add: Consume_trace [where br = br, OF assms] invoked_loop_events)
  have 4: "snd (snd (ConsumeWithOptions br fresh deliveries queue handler options ([], s))) =
              invoke d (snd (snd (ConsumeWithOptions br fresh pre queue handler options
                                    ([], s))))"
    if "deliveries = pre @ d # post" "\<forall>x\<in>set pre. handler x \<noteq> Blocks" "handler d = Blocks"
    for pre d post
    using that by (simp add: c handle_deliveries_blocked)
  from 1 2 3 4 show ?thesis by blast
qed

theorem consume_handles_one_at_a_time_witness:
  "fst (ConsumeWithOptions accepting_broker ''fresh'' [delivery1, delivery2] ''orders''
          blocking_first manual_ack ([], ())) = None \<and>
   snd (snd (ConsumeWithOptions accepting_broker ''fresh'' [delivery1, delivery2] ''orders''
               blocking_first manual_ack ([], ()))) =
     invoke delivery1 (snd (snd (ConsumeWithOptions accepting_broker ''fresh'' [] ''orders''
                                   blocking_first manual_ack ([], ()))))"
proof -
  have acc: "accepting_broker () (Consume ''orders''
               (if Consumer manual_ack = '''' then ''fresh'' else Consumer manual_ack)
               (AutoAck manual_ack) (co_Exclusive manual_ack) (NoLocal manual_ack)
               (co_NoWait manual_ack) (co_Args manual_ack)) = (None, ())"
    by (simp add: accepting_broker_def)
  have b: "[delivery1, delivery2] = [] @ delivery1 # [delivery2] \<and>
           (\<forall>x\<in>set []. blocking_first x \<noteq> Blocks) \<and> blocking_first delivery1 = Blocks"
    by (simp add: blocking_first_def delivery1_def)
  note t = consume_handles_one_at_a_time [where br = accepting_broker and s = "()"
             and s' = "()" and fresh = "''fresh''" and queue = "''orders''"
             and options = manual_ack and handler = blocking_first
             and deliveries = "[delivery1, delivery2]", OF acc]
  note t1 = t [THEN conjunct1]
  note t4 = t [THEN conjunct2, THEN conjunct2, THEN conjunct2, rule_format, OF b]
  from t1 t4 show ?thesis by (rule conjI)
qed

subsection \<open>Publisher\<close>

lemma Inject_headers:
  "Headers (Inject injected \<lparr>Headers = Some h\<rparr>) = Some (h ++ injected_headers injected)"
proof (induction injected arbitrary: h)
  case Nil
  then show ?case by (simp add: Inject_def injected_headers_def)
next
  case (Cons x xs)
  obtain k v where x: "x = (k, v)" by fastforce
  have "Inject (x # xs) \<lparr>Headers = Some h\<rparr> = Inject xs \<lparr>Headers = Some (h(k \<mapsto> VString v))\<rparr>"
    by (simp add: Inject_def Set_header_def x)
  moreover have "h(k \<mapsto> VString v) ++ injected_headers xs = h ++ injected_headers (x # xs)"
    by (rule ext) (simp add: injected_headers_def x map_add_def split: option.splits)
  ultimately show ?case using Cons.IH [of "h(k \<mapsto> VString v)"] by (simp only:)
qed

lemma optional_fields_keep:
  "Body (set_optional_fields options p) = Body p"
  "pub_Headers (set_optional_fields options p) = pub_Headers p"
  by (simp_all add: set_optional_fields_def Let_def)

lemma message_id_keeps_Body: "Body (set_message_id options p) = Body p"
  by (simp add: set_message_id_def Let_def split: option.splits)

lemma message_id_Headers:
  "pub_Headers p = Some h \<Longrightarrow>
   pub_Headers (set_message_id options p) =
     Some (if MessageID options \<noteq> ''''
           then h(''x-message-id'' \<mapsto> VString (MessageID options)) else h)"
  by (simp add: set_message_id_def Let_def)

lemma inject_trace_keeps_Body: "Body (inject_trace injected p) = Body p"
  by (simp add: inject_trace_def Let_def)

lemma inject_trace_Headers:
  "pub_Headers p = Some h \<Longrightarrow>
   pub_Headers (inject_trace injected p) = Some (h ++ injected_headers injected)"
  by (simp add: inject_trace_def Let_def Inject_headers)

lemma merge_headers_keeps_Body: "Body (merge_headers options p) = Body p"
  by (simp add: merge_headers_def Let_def split: option.splits)

lemma merge_headers_Headers:
  "pub_Headers p = None \<Longrightarrow>
   pub_Headers (merge_headers options p) =
     Some (case po_Headers options of None \<Rightarrow> Map.empty | Some src \<Rightarrow> src)"
  by (simp add: merge_headers_def Let_def copy_into_def split: option.splits)

lemma build_publishing_Body: "Body (build_publishing injected now body options) = body"
  by (simp add: build_publishing_def Let_def optional_fields_keep message_id_keeps_Body
        inject_trace_keeps_Body merge_headers_keeps_Body)

lemma build_publishing_Headers:
  "pub_Headers (build_publishing injected now body options) =
     Some (if MessageID options \<noteq> ''''
           then ((case po_Headers options of None \<Rightarrow> Map.empty | Some src \<Rightarrow> src)
                   ++ injected_headers injected)
                (''x-message-id'' \<mapsto> VString (MessageID options))
           else (case po_Headers options of None \<Rightarrow> Map.empty | Some src \<Rightarrow> src)
                   ++ injected_headers injected)"
  unfolding build_publishing_def Let_def optional_fields_keep
  by (rule message_id_Headers, rule inject_trace_Headers, rule merge_headers_Headers) simp

lemma Publish_sends:
  assumes "(case message of MBytes v \<Rightarrow> Inr v | MString v \<Rightarrow> Inr v | MOther x \<Rightarrow> marshal x)
             = Inr body"
  shows "fst (snd (PublishWithOptions br marshal injected now exchange routingKey message
                     options w)) =
           fst w @ [Broker (PublishWithContext exchange routingKey (Mandatory options)
                              (Immediate options)
                              (build_publishing injected now body options))]"
  using assms
  by (simp add: PublishWithOptions_def do_call_def split: prod.splits option.splits)

text \<open>
  Claim C5. For every message: a byte slice is sent as it is, a string is sent as its
  bytes, and any other value is sent as what \<^verbatim>\<open>json.Marshal\<close> returns for it;
  in each case the broker's publish is called once, with that body. When
  \<^verbatim>\<open>json.Marshal\<close> fails, the result is the error
  \<^verbatim>\<open>failed to marshal message\<close> and the world is unchanged: the broker is not
  called.
\<close>

theorem publish_serializes_message:
  "(\<forall>v. message = MBytes v \<or> message = MString v \<or>
         (\<exists>x. message = MOther x \<and> marshal x = Inr v) \<longrightarrow>
      (\<exists>p. fst (snd (PublishWithOptions br marshal injected now exchange routingKey message
                        options w)) =
              fst w @ [Broker (PublishWithContext exchange routingKey (Mandatory options)
                                 (Immediate options) p)] \<and>
            Body p = v)) \<and>
   (\<forall>x err. message = MOther x \<and> marshal x = Inl err \<longrightarrow>
      PublishWithOptions br marshal injected now exchange routingKey message options w =
        (Some (''failed to marshal message: '' @ err), w))"
proof (intro conjI allI impI)
  fix v
  assume "message = MBytes v \<or> message = MString v \<or>
          (\<exists>x. message = MOther x \<and> marshal x = Inr v)"
  then have "(case message of MBytes v \<Rightarrow> Inr v | MString v \<Rightarrow> Inr v | MOther x \<Rightarrow> marshal x)
               = Inr v"
    by auto
  from Publish_sends [OF this] build_publishing_Body
  show "\<exists>p. fst (snd (PublishWithOptions br marshal injected now exchange routingKey message
                        options w)) =
              fst w @ [Broker (PublishWithContext exchange routingKey (Mandatory options)
                                 (Immediate options) p)] \<and>
            Body p = v"
    by blast
next
  fix x err
  assume "message = MOther x \<and> marshal x = Inl err"
  then show "PublishWithOptions br marshal injected now exchange routingKey message options w =
        (Some (''failed to marshal message: '' @ err), w)"
    by (simp add: PublishWithOptions_def)
qed

theorem publish_serializes_message_witness:
  "(\<exists>p. fst (snd (PublishWithOptions accepting_broker sample_marshal [] 5 ''E'' ''k''
                     (MBytes ''abc'') no_publish_options ([], ()))) =
          [Broker (PublishWithContext ''E'' ''k'' False False p)] \<and> Body p = ''abc'') \<and>
   (\<exists>p. fst (snd (PublishWithOptions accepting_broker sample_marshal [] 5 ''E'' ''k''
                     (MString ''hello'') no_publish_options ([], ()))) =
          [Broker (PublishWithContext ''E'' ''k'' False False p)] \<and> Body p = ''hello'') \<and>
   (\<exists>p. fst (snd (PublishWithOptions accepting_broker sample_marshal [] 5 ''E'' ''k''
                     (MOther 1) no_publish_options ([], ()))) =
          [Broker (PublishWithContext ''E'' ''k'' False False p)] \<and> Body p = ''{}'') \<and>
   PublishWithOptions accepting_broker sample_marshal [] 5 ''E'' ''k'' (MOther 0)
       no_publish_options ([], ()) =
     (Some ''failed to marshal message: unsupported type'', ([], ()))"
proof -
  note t = publish_serializes_message [where br = accepting_broker and marshal = sample_marshal
             and injected = "[]" and now = 5 and exchange = "''E''" and routingKey = "''k''"
             and options = no_publish_options and w = "([], ())"]
  have o: "Mandatory no_publish_options = False" "Immediate no_publish_options = False"
    by (simp_all add: no_publish_options_def)
  have m: "sample_marshal 1 = Inr ''{}''" "sample_marshal 0 = Inl ''unsupported type''"
    by (simp_all add: sample_marshal_def)
  have 1: "(MBytes ''abc'' :: nat message) = MBytes ''abc'' \<or> MBytes ''abc'' = MString ''abc'' \<or>
          (\<exists>x. MBytes ''abc'' = MOther x \<and> sample_marshal x = Inr ''abc'')"
    by simp
  have 2: "(MString ''hello'' :: nat message) = MBytes ''hello'' \<or> MString ''hello'' = MString ''hello'' \<or>
          (\<exists>x. MString ''hello'' = MOther x \<and> sample_marshal x = Inr ''hello'')"
    by simp
  have 3: "MOther (1::nat) = MBytes ''{}'' \<or> MOther (1::nat) = MString ''{}'' \<or>
          (\<exists>x. MOther 1 = MOther x \<and> sample_marshal x = Inr ''{}'')"
    using m by simp
  have 4: "MOther (0::nat) = MOther 0 \<and> sample_marshal 0 = Inl ''unsupported type''"
    using m by simp
  note a = t [where message = "MBytes ''abc''", THEN conjunct1, rule_format, OF 1]
  note b = t [where message = "MString ''hello''", THEN conjunct1, rule_format, OF 2]
  note c = t [where message = "MOther 1", THEN conjunct1, rule_format, OF 3]
  note d = t [where message = "MOther 0", THEN conjunct2, rule_format, OF 4]
  from a b c d show ?thesis
    unfolding o by simp
qed

text \<open>
  Claim C7 says that every entry of the caller's header table is preserved in the
  published message. The propagator writes after the caller's headers are copied, and
  \<^verbatim>\<open>x-message-id\<close> is written after that: with the caller's headers
  \<^verbatim>\<open>a\<close>, \<^verbatim>\<open>traceparent\<close> and \<^verbatim>\<open>x-message-id\<close>, a propagator
  that sets \<^verbatim>\<open>traceparent\<close> and a message id, only \<^verbatim>\<open>a\<close> keeps the
  caller's value.
\<close>

theorem caller_headers_overwritten_counterexample:
  "po_Headers clashing_options =
     Some [''a'' \<mapsto> VString ''1'', ''traceparent'' \<mapsto> VString ''mine'',
           ''x-message-id'' \<mapsto> VString ''mine''] \<and>
   fst (snd (PublishWithOptions accepting_broker sample_marshal [(''traceparent'', ''00-trace'')]
               5 ''E'' ''k'' (MString ''hello'') clashing_options ([], ()))) =
     [Broker (PublishWithContext ''E'' ''k'' False False
                (build_publishing [(''traceparent'', ''00-trace'')] 5 ''hello''
                   clashing_options))] \<and>
   map_option (\<lambda>h. (h ''a'', h ''traceparent'', h ''x-message-id''))
     (pub_Headers (build_publishing [(''traceparent'', ''00-trace'')] 5 ''hello''
                     clashing_options)) =
     Some (Some (VString ''1''), Some (VString ''00-trace''), Some (VString ''m-1''))"
proof -
  have s: "(case MString ''hello'' :: nat message of MBytes v \<Rightarrow> Inr v | MString v \<Rightarrow> Inr v
            | MOther x \<Rightarrow> sample_marshal x) = Inr ''hello''"
    by simp
  have o: "Mandatory clashing_options = False" "Immediate clashing_options = False"
    "MessageID clashing_options = ''m-1''"
    "po_Headers clashing_options =
       Some [''a'' \<mapsto> VString ''1'', ''traceparent'' \<mapsto> VString ''mine'',
             ''x-message-id'' \<mapsto> VString ''mine'']"
    by (simp_all add: clashing_options_def no_publish_options_def)
  have h: "map_option (\<lambda>h. (h ''a'', h ''traceparent'', h ''x-message-id''))
     (pub_Headers (build_publishing [(''traceparent'', ''00-trace'')] 5 ''hello''
                     clashing_options)) =
     Some (Some (VString ''1''), Some (VString ''00-trace''), Some (VString ''m-1''))"
    by (simp add: build_publishing_Headers o injected_headers_def)
  have p: "fst (snd (PublishWithOptions accepting_broker sample_marshal
                       [(''traceparent'', ''00-trace'')] 5 ''E'' ''k'' (MString ''hello'')
                       clashing_options ([], ()))) =
     [Broker (PublishWithContext ''E'' ''k'' False False
                (build_publishing [(''traceparent'', ''00-trace'')] 5 ''hello''
                   clashing_options))]"
    using Publish_sends [where br = accepting_broker and w = "([], ())"
            and options = clashing_options, OF s]
    by (simp add: o(1,2))
  from o(4) p h show ?thesis
    by (intro conjI)
qed

text \<open>
  Claim C7, amended. When the message serializes, the published message's header table
  holds every entry of the caller's table whose key is not one that the propagator sets
  and is not \<^verbatim>\<open>x-message-id\<close> when a message id is given. Next to them it
  holds, for every key that the propagator sets, the last value the propagator set for
  it, whatever the caller had under that key (but for \<^verbatim>\<open>x-message-id\<close> when a
  message id is given). When a message id is given, \<^verbatim>\<open>x-message-id\<close> holds
  the message id, whatever the caller or the propagator put there.
\<close>

theorem caller_headers_merged:
  assumes "(case message of MBytes v \<Rightarrow> Inr v | MString v \<Rightarrow> Inr v | MOther x \<Rightarrow> marshal x)
             = Inr body"
    and "po_Headers options = Some src"
  shows "\<exists>p h.
           fst (snd (PublishWithOptions br marshal injected now exchange routingKey message
                       options w)) =
             fst w @ [Broker (PublishWithContext exchange routingKey (Mandatory options)
                                (Immediate options) p)] \<and>
           pub_Headers p = Some h \<and>
           (\<forall>k v. src k = Some v \<and> k \<notin> fst ` set injected \<and>
                  (MessageID options = '''' \<or> k \<noteq> ''x-message-id'') \<longrightarrow> h k = Some v) \<and>
           (\<forall>k v. map_of (rev injected) k = Some v \<and>
                  (MessageID options = '''' \<or> k \<noteq> ''x-message-id'') \<longrightarrow>
                  h k = Some (VString v)) \<and>
           (MessageID options \<noteq> '''' \<longrightarrow>
              h ''x-message-id'' = Some (VString (MessageID options)))"
proof -
  let ?h = "if MessageID options \<noteq> ''''
            then (src ++ injected_headers injected)
                   (''x-message-id'' \<mapsto> VString (MessageID options))
            else src ++ injected_headers injected"
  have H: "pub_Headers (build_publishing injected now body options) = Some ?h"
    by (simp add: build_publishing_Headers assms(2))
  have ih: "injected_headers injected k = map_option VString (map_of (rev injected) k)" for k
  proof -
    have g: "map_of (map (\<lambda>(k, v). (k, VString v)) xs) k = map_option VString (map_of xs k)"
      for xs :: "(string \<times> string) list"
      by (induction xs) auto
    show ?thesis
      unfolding injected_headers_def rev_map by (rule g)
  qed
  have dom: "dom (injected_headers injected) = fst ` set injected"
    by (force simp: injected_headers_def dom_map_of_conv_image_fst image_iff)
  have 1: "?h k = Some v"
    if "src k = Some v" "k \<notin> fst ` set injected"
       "MessageID options = '''' \<or> k \<noteq> ''x-message-id''" for k v
  proof -
    from that(2) dom have "injected_headers injected k = None" by blast
    with that(1,3) show ?thesis by (auto simp: map_add_def)
  qed
  have 2: "?h k = Some (VString v)"
    if "map_of (rev injected) k = Some v"
       "MessageID options = '''' \<or> k \<noteq> ''x-message-id''" for k v
  proof -
    from that(1) have "injected_headers injected k = Some (VString v)"
      by (simp add: ih)
    with that(2) show ?thesis by (auto simp: map_add_def)
  qed
  have 3: "?h ''x-message-id'' = Some (VString (MessageID options))"
    if "MessageID options \<noteq> ''''"
    using that by simp
  from Publish_sends [OF assms(1)] H 1 2 3 show ?thesis
    by blast
qed

theorem caller_headers_merged_witness:
  "\<exists>p h. fst (snd (PublishWithOptions accepting_broker sample_marshal
                      [(''traceparent'', ''00-trace'')] 5 ''E'' ''k'' (MString ''hello'')
                      clashing_options ([], ()))) =
            [Broker (PublishWithContext ''E'' ''k'' False False p)] \<and>
          pub_Headers p = Some h \<and>
          h ''a'' = Some (VString ''1'') \<and>
          h ''traceparent'' = Some (VString ''00-trace'') \<and>
          h ''x-message-id'' = Some (VString ''m-1'')"
proof -
  let ?src = "[''a'' \<mapsto> VString ''1'', ''traceparent'' \<mapsto> VString ''mine'',
               ''x-message-id'' \<mapsto> VString ''mine'']"
  have s: "(case MString ''hello'' :: nat message of MBytes v \<Rightarrow> Inr v | MString v \<Rightarrow> Inr v
            | MOther x \<Rightarrow> sample_marshal x) = Inr ''hello''"
    by simp
  have o: "po_Headers clashing_options = Some ?src"
    by (simp add: clashing_options_def no_publish_options_def)
  have f: "Mandatory clashing_options = False" "Immediate clashing_options = False"
    by (simp_all add: clashing_options_def no_publish_options_def)
  have mid: "MessageID clashing_options = ''m-1''"
    by (simp add: clashing_options_def no_publish_options_def)
  obtain p h where
    t: "fst (snd (PublishWithOptions accepting_broker sample_marshal
                    [(''traceparent'', ''00-trace'')] 5 ''E'' ''k'' (MString ''hello'')
                    clashing_options ([], ()))) =
          fst ([] :: event list, ()) @
          [Broker (PublishWithContext ''E'' ''k'' (Mandatory clashing_options)
                     (Immediate clashing_options) p)]"
    and h: "pub_Headers p = Some h"
    and c: "\<forall>k v. ?src k = Some v \<and> k \<notin> fst ` set [(''traceparent'', ''00-trace'')] \<and>
                  (MessageID clashing_options = '''' \<or> k \<noteq> ''x-message-id'') \<longrightarrow>
                  h k = Some v"
    and i: "\<forall>k v. map_of (rev [(''traceparent'', ''00-trace'')]) k = Some v \<and>
                  (MessageID clashing_options = '''' \<or> k \<noteq> ''x-message-id'') \<longrightarrow>
                  h k = Some (VString v)"
    and m: "MessageID clashing_options \<noteq> '''' \<longrightarrow>
              h ''x-message-id'' = Some (VString (MessageID clashing_options))"
    using caller_headers_merged [where br = accepting_broker and marshal = sample_marshal
            and w = "([], ())" and options = clashing_options
            and injected = "[(''traceparent'', ''00-trace'')]" and now = 5
            and exchange = "''E''" and routingKey = "''k''", OF s o]
    by blast
  have a: "h ''a'' = Some (VString ''1'')"
    using c [rule_format, of "''a''" "VString ''1''"] by simp
  have b: "h ''traceparent'' = Some (VString ''00-trace'')"
    using i [rule_format, of "''traceparent''" "''00-trace''"] by simp
  have x: "h ''x-message-id'' = Some (VString ''m-1'')"
    using m by (simp add: mid)
  from t h a b x show ?thesis
    unfolding f by auto
qed

end
